theory Spec2Isabelle
  imports Complex_Main
begin

section \<open>Conventions of the embedding\<close>

text \<open>
  The embedding follows \<^verbatim>\<open>src/OKXBot_Workspace/src/okx_deepseek.py\<close>.
  Python numbers are modelled as \<^typ>\<open>real\<close>: quantities, prices and balances are exact,
  so the rounding of IEEE floats is outside the model. Python strings are byte lists
  (\<^typ>\<open>string\<close>); the Chinese labels of the source appear as their UTF-8 bytes.
  Every read of the exchange is a field of a record that holds what the call returned,
  with \<open>None\<close> where the call (or the subscript on its result) raises. Log lines are
  left out, except for the levels that \<^verbatim>\<open>_log\<close> emits; orders, notifications of the
  risk manager, file contents and the mutated signal are kept.
\<close>

subsection \<open>Python helpers\<close>

datatype py_error = TypeError | ZeroDivisionError | KeyError | AttributeError

text \<open>A number read from the exchange, or Python's \<^verbatim>\<open>None\<close>.\<close>

datatype py_number = Number real | Null

text \<open>A value of the advisor's JSON object: a string, or anything else.\<close>

datatype py_value = Str string | Non_str

text \<open>Truth value of an optional number: \<open>None\<close> and \<open>0\<close> are false.\<close>

definition truthy :: "real option \<Rightarrow> bool" where
  "truthy v = (case v of None \<Rightarrow> False | Some x \<Rightarrow> x \<noteq> 0)"

text \<open>Float division raises on a zero divisor.\<close>

definition py_div :: "real \<Rightarrow> real \<Rightarrow> real option" where
  "py_div a b = (if b = 0 then None else Some (a / b))"

text \<open>
  \<^verbatim>\<open>str.upper()\<close> on the UTF-8 bytes of a string. The ASCII letters are capitalised, and
  so are the two other letters whose capital is an ASCII letter: the dotless i (U+0131,
  bytes \<open>C4 B1\<close>) gives \<open>I\<close> and the long s (U+017F, bytes \<open>C5 BF\<close>) gives \<open>S\<close>. Every
  other character is left as it is; Python gives it a capital that holds a non-ASCII
  character or one of the letters \<open>F\<close>, \<open>S\<close>, \<open>T\<close> (the ligatures and the sharp s),
  so the result equals \<open>LOW\<close>, \<open>MEDIUM\<close> or \<open>HIGH\<close>, the only words
  the code compares it with, in the model exactly when it does in Python.
\<close>

definition upper_char :: "char \<Rightarrow> char" where
  "upper_char c =
     (case map_of (zip ''abcdefghijklmnopqrstuvwxyz'' ''ABCDEFGHIJKLMNOPQRSTUVWXYZ'') c of
        None \<Rightarrow> c | Some u \<Rightarrow> u)"

fun upper :: "string \<Rightarrow> string" where
  "upper [] = []"
| "upper [c] = [upper_char c]"
| "upper (c # d # cs) =
     (if c = CHR 0xC4 \<and> d = CHR 0xB1 then CHR ''I'' # upper cs
      else if c = CHR 0xC5 \<and> d = CHR 0xBF then CHR ''S'' # upper cs
      else upper_char c # upper (d # cs))"

text \<open>
  \<^verbatim>\<open>DeepSeekTrader._log\<close>, lines 569 to 575: a message is emitted when its level is
  \<open>info\<close> or \<open>error\<close>; a call with any other level, such as \<open>warning\<close>, emits nothing.
\<close>

definition log_emits :: "string \<Rightarrow> bool" where
  "log_emits level = (level = ''info'' \<or> level = ''error'')"

text \<open>
  Fixed-point formatting \<^verbatim>\<open>f"{x:.nf}"\<close>: the value is rounded to \<open>n\<close> decimals, ties to
  the even neighbour, and printed with its sign.
\<close>

definition round_half_even :: "real \<Rightarrow> int" where
  "round_half_even y =
     (let f = \<lfloor>y\<rfloor>; d = y - of_int f
      in if d < 1 / 2 then f
         else if 1 / 2 < d then f + 1
         else if even f then f else f + 1)"

fun nat_digits :: "nat \<Rightarrow> nat \<Rightarrow> string" where
  "nat_digits 0 n = []"
| "nat_digits (Suc fuel) n =
     (if n < 10 then [''0123456789'' ! n]
      else nat_digits fuel (n div 10) @ [''0123456789'' ! (n mod 10)])"

definition show_nat :: "nat \<Rightarrow> string" where
  "show_nat n = nat_digits (Suc n) n"

definition zero_pad :: "nat \<Rightarrow> string \<Rightarrow> string" where
  "zero_pad n s = replicate (n - length s) CHR ''0'' @ s"

definition format_f :: "nat \<Rightarrow> real \<Rightarrow> string" where
  "format_f n x =
     (let k = nat (round_half_even (\<bar>x\<bar> * 10 ^ n))
      in (if x < 0 then ''-'' else [])
         @ show_nat (k div 10 ^ n)
         @ (if n = 0 then [] else ''.'' @ zero_pad n (show_nat (k mod 10 ^ n))))"

text \<open>
  \<^verbatim>\<open>float(f"{x:.4f}")\<close>, the fallback of the precision block. Python rounds the exact
  value of the float, ties to even, as here; a decimal literal such as \<open>0.12345\<close> is in
  Python a float next to the tie and not the tie itself.
\<close>

definition round4 :: "real \<Rightarrow> real" where
  "round4 x = of_int (round_half_even (x * 10000)) / 10000"

section \<open>Data model\<close>

text \<open>
  The advisor's signal: the dictionary \<^verbatim>\<open>signal_data\<close> once the reads of lines 1167 to
  1181 have found a string under \<^verbatim>\<open>confidence\<close> and a string under \<^verbatim>\<open>reason\<close>.
\<close>

record signal_data =
  signal :: string
  confidence :: string
  amount :: real
  reason :: string

text \<open>The dictionary returned by \<^verbatim>\<open>get_current_position\<close>.\<close>

record position =
  side :: string
  pos_size :: real
  entry_price :: real
  unrealized_pnl :: real

text \<open>The fields of \<^verbatim>\<open>DeepSeekTrader\<close> that \<^verbatim>\<open>execute_trade\<close> reads.\<close>

record trader =
  self_amount :: real
  allocation :: real
  leverage :: real
  trade_mode :: string
  test_mode :: bool
  max_slippage :: real
  min_confidence :: string
  taker_fee_rate :: real
  initial_balance :: "real option"

section \<open>SignalGate: the two filters of \<^verbatim>\<open>execute_trade\<close>\<close>

text \<open>\<^verbatim>\<open>confidence_levels.get(key, default)\<close> with the table of line 1180.\<close>

definition confidence_levels :: "string \<Rightarrow> nat option" where
  "confidence_levels k =
     (if k = ''LOW'' then Some 1
      else if k = ''MEDIUM'' then Some 2
      else if k = ''HIGH'' then Some 3
      else None)"

definition current_conf_val :: "signal_data \<Rightarrow> nat" where
  "current_conf_val s =
     (case confidence_levels (upper (confidence s)) of None \<Rightarrow> 1 | Some v \<Rightarrow> v)"

definition min_conf_val :: "trader \<Rightarrow> nat" where
  "min_conf_val t =
     (case confidence_levels (upper (min_confidence t)) of None \<Rightarrow> 2 | Some v \<Rightarrow> v)"

text \<open>UTF-8 bytes of the label of the confidence filter (four Chinese characters).\<close>

definition conf_filter_label :: string where
  "conf_filter_label =
     [CHR 0xE4, CHR 0xBF, CHR 0xA1, CHR 0xE5, CHR 0xBF, CHR 0x83,
      CHR 0xE8, CHR 0xBF, CHR 0x87, CHR 0xE6, CHR 0xBB, CHR 0xA4]"

definition conf_filter_suffix :: "trader \<Rightarrow> signal_data \<Rightarrow> string" where
  "conf_filter_suffix t s =
     '' ['' @ conf_filter_label @ '': '' @ confidence s @ '' < '' @ min_confidence t @ '']''"

text \<open>Lines 1184 to 1188.\<close>

definition confidence_filter :: "trader \<Rightarrow> signal_data \<Rightarrow> signal_data" where
  "confidence_filter t s =
     (if current_conf_val s < min_conf_val t
      then s\<lparr>signal := ''HOLD'', reason := reason s @ conf_filter_suffix t s\<rparr>
      else s)"

text \<open>Lines 1198 to 1203: the unrealized profit ratio, signed by side.\<close>

definition pnl_pct :: "position \<Rightarrow> real \<Rightarrow> real" where
  "pnl_pct p current_price =
     (if entry_price p > 0
      then (if side p = ''long''
            then (current_price - entry_price p) / entry_price p
            else (entry_price p - current_price) / entry_price p)
      else 0)"

definition min_profit_threshold :: "trader \<Rightarrow> real" where
  "min_profit_threshold t = taker_fee_rate t * 2 + 0.0005"

text \<open>UTF-8 bytes of the three Chinese fragments of the message of line 1220.\<close>

definition risk_block_label :: string where
  "risk_block_label =
     [CHR 0xE9, CHR 0xA3, CHR 0x8E, CHR 0xE6, CHR 0x8E, CHR 0xA7,
      CHR 0xE6, CHR 0x8B, CHR 0xA6, CHR 0xE6, CHR 0x88, CHR 0xAA]"

definition float_profit_label :: string where
  "float_profit_label = [CHR 0xE6, CHR 0xB5, CHR 0xAE, CHR 0xE7, CHR 0x9B, CHR 0x88]"

definition fee_cover_label :: string where
  "fee_cover_label =
     [CHR 0xE4, CHR 0xB8, CHR 0x8D, CHR 0xE8, CHR 0xB6, CHR 0xB3, CHR 0xE4, CHR 0xBB,
      CHR 0xA5, CHR 0xE8, CHR 0xA6, CHR 0x86, CHR 0xE7, CHR 0x9B, CHR 0x96, CHR 0xE5,
      CHR 0x8F, CHR 0x8C, CHR 0xE5, CHR 0x90, CHR 0x91, CHR 0xE6, CHR 0x89, CHR 0x8B,
      CHR 0xE7, CHR 0xBB, CHR 0xAD, CHR 0xE8, CHR 0xB4, CHR 0xB9]"

definition profit_block_reason :: "trader \<Rightarrow> real \<Rightarrow> string" where
  "profit_block_reason t pnl =
     ''['' @ risk_block_label @ ''] '' @ float_profit_label @ '' ''
       @ format_f 2 (pnl * 100) @ ''% '' @ fee_cover_label
       @ ''('' @ format_f 3 (taker_fee_rate t * 2 * 100) @ ''%)''"

text \<open>
  Lines 1195 to 1226. The result is the signal and whether the branch of line 1223 was
  taken. That branch only calls \<^verbatim>\<open>_log\<close> with level \<open>warning\<close>, which emits nothing
  (\<open>log_emits\<close>).
\<close>

definition profit_filter ::
  "trader \<Rightarrow> position option \<Rightarrow> real \<Rightarrow> signal_data \<Rightarrow> signal_data \<times> bool" where
  "profit_filter t current_position current_price s =
     (if signal s = ''SELL'' then
        (case current_position of
           None \<Rightarrow> (s, False)
         | Some p \<Rightarrow>
             (let pnl = pnl_pct p current_price; thr = min_profit_threshold t
              in if 0 \<le> pnl \<and> pnl < thr
                 then (s\<lparr>signal := ''HOLD'', reason := profit_block_reason t pnl\<rparr>, False)
                 else if thr \<le> pnl \<and> pnl < thr + 0.003 then (s, True)
                 else (s, False)))
      else (s, False))"

section \<open>PositionSizer and ExecutionRouter: the rest of \<^verbatim>\<open>execute_trade\<close>\<close>

text \<open>An entry of \<^verbatim>\<open>fetch_positions\<close>; an absent or null field is \<open>None\<close>.\<close>

record raw_position =
  rp_symbol :: string
  rp_side :: string
  contracts :: "real option"
  entryPrice :: "real option"
  unrealizedPnl :: "real option"

text \<open>\<^verbatim>\<open>float(v) if v else 0\<close>.\<close>

definition float_or_0 :: "real option \<Rightarrow> real" where
  "float_or_0 v = (case v of None \<Rightarrow> 0 | Some x \<Rightarrow> x)"

text \<open>Lines 830 to 849; a failing \<^verbatim>\<open>fetch_positions\<close> is \<open>None\<close> and yields \<open>None\<close>.\<close>

fun find_position :: "string \<Rightarrow> raw_position list \<Rightarrow> position option" where
  "find_position symb [] = None"
| "find_position symb (p # ps) =
     (if rp_symbol p = symb \<and> float_or_0 (contracts p) > 0
      then Some \<lparr>side = rp_side p, pos_size = float_or_0 (contracts p),
                 entry_price = float_or_0 (entryPrice p),
                 unrealized_pnl = float_or_0 (unrealizedPnl p)\<rparr>
      else find_position symb ps)"

definition get_current_position :: "string \<Rightarrow> raw_position list option \<Rightarrow> position option" where
  "get_current_position symb fetched =
     (case fetched of None \<Rightarrow> None | Some ps \<Rightarrow> find_position symb ps)"

text \<open>\<^verbatim>\<open>market['limits']\<close>: the minimum quantity and the minimum notional, when given.\<close>

record market_limits =
  min_amount :: "real option"
  min_cost :: "real option"

text \<open>A call of \<^verbatim>\<open>create_market_order\<close>.\<close>

record order =
  order_side :: string
  qty :: real
  reduce_only :: bool
  td_mode :: "string option"

text \<open>
  What the exchange returns to one call of \<^verbatim>\<open>execute_trade\<close>, one field per call
  site, in the order of the calls. A price or a balance that is read is a number.
\<close>

record gateway =
  symbol :: string
  fetch_positions :: "raw_position list option"       \<comment> \<open>line 1156\<close>
  price_entry :: "real option"                        \<comment> \<open>line 1170, \<^verbatim>\<open>get_ohlcv()['price']\<close>\<close>
  ticker_last :: "real option"                        \<comment> \<open>line 1235\<close>
  price_analysis :: "real option"                     \<comment> \<open>line 1237\<close>
  price_sizing :: "real option"                       \<comment> \<open>line 1260\<close>
  account_balance :: real                             \<comment> \<open>line 1261, \<open>0\<close> on failure\<close>
  spot_balance_used :: real                           \<comment> \<open>line 1282, \<open>0\<close> on failure\<close>
  spot_balance_held :: real                           \<comment> \<open>line 1330, \<open>0\<close> on failure\<close>
  market :: "market_limits option"                    \<comment> \<open>line 1376\<close>
  amount_to_precision :: "real \<Rightarrow> real option"        \<comment> \<open>lines 1395 and 1414\<close>
  coin_balance :: "real option"                       \<comment> \<open>lines 1456 to 1464\<close>
  order_accepted :: "order \<Rightarrow> bool"                    \<comment> \<open>the order call returns\<close>

text \<open>\<^verbatim>\<open>v and P(v)\<close> for an optional number \<open>v\<close>.\<close>

definition set_and :: "real option \<Rightarrow> (real \<Rightarrow> bool) \<Rightarrow> bool" where
  "set_and v P = (case v of None \<Rightarrow> False | Some x \<Rightarrow> x \<noteq> 0 \<and> P x)"

text \<open>Lines 1233 to 1250: any exception inside the guard lets the trade go on.\<close>

definition slippage_cancelled :: "trader \<Rightarrow> gateway \<Rightarrow> bool" where
  "slippage_cancelled t g =
     (case ticker_last g of
        None \<Rightarrow> False
      | Some current_realtime_price \<Rightarrow>
          (case price_analysis g of
             None \<Rightarrow> False
           | Some analysis_price \<Rightarrow>
               (case py_div \<bar>current_realtime_price - analysis_price\<bar> analysis_price of
                  None \<Rightarrow> False
                | Some r \<Rightarrow> r * 100 > max_slippage t)))"

text \<open>Lines 1264 to 1311: fund isolation.\<close>

definition allocated_quota :: "trader \<Rightarrow> real \<Rightarrow> real" where
  "allocated_quota t ib = (if allocation t \<le> 1.0 then ib * allocation t else allocation t)"

definition used_capital :: "trader \<Rightarrow> gateway \<Rightarrow> real \<Rightarrow> real" where
  "used_capital t g current_price =
     (if trade_mode t = ''cash'' then spot_balance_used g * current_price else 0.0)"

definition effective_balance :: "trader \<Rightarrow> gateway \<Rightarrow> real \<Rightarrow> real" where
  "effective_balance t g current_price =
     (let real_balance = account_balance g
      in if set_and (initial_balance t) (\<lambda>ib. ib > 0) then
           (case initial_balance t of
              None \<Rightarrow> real_balance
            | Some ib \<Rightarrow>
                (let remaining_quota =
                       max 0 (allocated_quota t ib - used_capital t g current_price)
                 in if remaining_quota < real_balance then remaining_quota else real_balance))
         else real_balance)"

text \<open>
  Lines 1314 to 1345: the limit and \<^verbatim>\<open>is_closing_position\<close>; \<open>None\<close> is the
  \<open>ZeroDivisionError\<close> of a zero price.
\<close>

definition max_trade_limit ::
  "trader \<Rightarrow> gateway \<Rightarrow> signal_data \<Rightarrow> real \<Rightarrow> (real \<times> bool) option" where
  "max_trade_limit t g s current_price =
     (let eb = effective_balance t g current_price;
          cur = get_current_position (symbol g) (fetch_positions g)
      in if signal s = ''BUY'' then
           (if trade_mode t = ''cash''
            then map_option (\<lambda>q. (q, False)) (py_div (eb * 0.99) current_price)
            else map_option (\<lambda>q. (q, False)) (py_div (eb * leverage t * 0.99) current_price))
         else if signal s = ''SELL'' then
           (if trade_mode t = ''cash'' then Some (spot_balance_held g, True)
            else if (case cur of None \<Rightarrow> False | Some p \<Rightarrow> side p = ''long'')
            then map_option (\<lambda>q. (q, False)) (py_div (eb * leverage t * 0.99) current_price)
            else map_option (\<lambda>q. (q, False)) (py_div (eb * leverage t * 0.99) current_price))
         else Some (0.0, False))"

text \<open>Lines 1352 to 1371.\<close>

definition sized_amount :: "trader \<Rightarrow> signal_data \<Rightarrow> real \<Rightarrow> bool \<Rightarrow> real" where
  "sized_amount t s limit is_closing_position =
     (if is_closing_position then min (amount s) limit
      else if upper (confidence s) = ''HIGH'' then min (amount s) limit
      else min (self_amount t) (min (amount s) limit))"

text \<open>How a call of \<^verbatim>\<open>execute_trade\<close> ends.\<close>

datatype outcome =
    Hold                   \<comment> \<open>line 1192\<close>
  | Test_mode              \<comment> \<open>line 1230\<close>
  | Slippage_cancel        \<comment> \<open>line 1247\<close>
  | Below_min_amount       \<comment> \<open>line 1391\<close>
  | Precision_failed       \<comment> \<open>line 1399\<close>
  | Below_min_truncated    \<comment> \<open>line 1404\<close>
  | Below_min_cost         \<comment> \<open>line 1419\<close>
  | Non_positive           \<comment> \<open>line 1439\<close>
  | Spot_insufficient      \<comment> \<open>line 1472\<close>
  | Routed                 \<comment> \<open>the end of the function\<close>
  | Raised py_error        \<comment> \<open>an exception leaves the function\<close>

text \<open>
  Lines 1407 to 1419, after the truncation: \<open>Inl\<close> is an early return, \<open>Inr\<close> the quantity
  that goes on. An exception here is caught at line 1421 and the quantity at hand is
  rounded to four decimals.
\<close>

definition check_min_cost ::
  "gateway \<Rightarrow> signal_data \<Rightarrow> market_limits \<Rightarrow> real \<Rightarrow> real \<Rightarrow> real \<Rightarrow> outcome + real" where
  "check_min_cost g s m current_price limit trade_amount =
     (case min_cost m of
        None \<Rightarrow> Inr trade_amount
      | Some mc \<Rightarrow>
          (if trade_amount * current_price < mc then
             (if limit * current_price \<ge> mc \<and> signal s = ''BUY'' then
                (case py_div mc current_price of
                   None \<Rightarrow> Inr (round4 trade_amount)
                 | Some q \<Rightarrow>
                     (case amount_to_precision g (q * 1.05) of
                        None \<Rightarrow> Inr (round4 trade_amount)
                      | Some precise_req_amount \<Rightarrow> Inr precise_req_amount))
              else Inl Below_min_cost)
           else Inr trade_amount))"

text \<open>Lines 1374 to 1423.\<close>

definition precision_block ::
  "gateway \<Rightarrow> signal_data \<Rightarrow> real \<Rightarrow> real \<Rightarrow> real \<Rightarrow> outcome + real" where
  "precision_block g s current_price limit trade_amount =
     (case market g of
        None \<Rightarrow> Inr (round4 trade_amount)
      | Some m \<Rightarrow>
          (let below = (case min_amount m of None \<Rightarrow> False | Some ma \<Rightarrow> trade_amount < ma);
               can_raise = (case min_amount m of None \<Rightarrow> False | Some ma \<Rightarrow> limit \<ge> ma)
                             \<and> signal s = ''BUY''
           in if below \<and> \<not> can_raise then Inl Below_min_amount
              else
                (case amount_to_precision g
                        (if below then (case min_amount m of None \<Rightarrow> trade_amount | Some ma \<Rightarrow> ma)
                         else trade_amount) of
                   None \<Rightarrow> Inl Precision_failed
                 | Some precise \<Rightarrow>
                     (if (case min_amount m of None \<Rightarrow> False | Some ma \<Rightarrow> precise < ma)
                      then Inl Below_min_truncated
                      else check_min_cost g s m current_price limit precise))))"

text \<open>
  Lines 1442 to 1528. The orders are the calls of \<^verbatim>\<open>create_market_order\<close>, in order; a
  call that raises ends the block (line 1520).
\<close>

definition entry_order :: "trader \<Rightarrow> string \<Rightarrow> real \<Rightarrow> order" where
  "entry_order t sd trade_amount =
     \<lparr>order_side = sd, qty = trade_amount, reduce_only = False, td_mode = Some (trade_mode t)\<rparr>"

definition close_order :: "string \<Rightarrow> position \<Rightarrow> order" where
  "close_order sd p = \<lparr>order_side = sd, qty = pos_size p, reduce_only = True, td_mode = None\<rparr>"

definition margin_orders ::
  "trader \<Rightarrow> gateway \<Rightarrow> string \<Rightarrow> string \<Rightarrow> real \<Rightarrow> order list" where
  "margin_orders t g sd opposite trade_amount =
     (case get_current_position (symbol g) (fetch_positions g) of
        None \<Rightarrow> [entry_order t sd trade_amount]
      | Some p \<Rightarrow>
          (if side p = opposite then
             (if order_accepted g (close_order sd p)
              then [close_order sd p, entry_order t sd trade_amount]
              else [close_order sd p])
           else if side p = ''short'' \<or> side p = ''long''
           then [entry_order t sd trade_amount]
           else []))"

definition route_order ::
  "trader \<Rightarrow> gateway \<Rightarrow> signal_data \<Rightarrow> real \<Rightarrow> outcome \<times> order list" where
  "route_order t g s trade_amount =
     (if trade_mode t = ''cash'' then
        (if signal s = ''BUY'' then
           (Routed, [\<lparr>order_side = ''buy'', qty = trade_amount, reduce_only = False,
                      td_mode = None\<rparr>])
         else if signal s = ''SELL'' then
           (case coin_balance g of
              None \<Rightarrow> (Routed, [])
            | Some cb \<Rightarrow>
                (if cb \<ge> trade_amount
                 then (Routed, [\<lparr>order_side = ''sell'', qty = trade_amount,
                                  reduce_only = False, td_mode = None\<rparr>])
                 else (Spot_insufficient, [])))
         else (Routed, []))
      else
        (if signal s = ''BUY'' then (Routed, margin_orders t g ''buy'' ''short'' trade_amount)
         else if signal s = ''SELL'' then (Routed, margin_orders t g ''sell'' ''long'' trade_amount)
         else (Routed, [])))"

text \<open>The result of one call: how it ended, the signal as mutated, the orders sent.\<close>

record result =
  outcome :: outcome
  sig :: signal_data
  orders :: "order list"
  low_margin_branch :: bool

definition finish :: "outcome \<Rightarrow> signal_data \<Rightarrow> order list \<Rightarrow> bool \<Rightarrow> result" where
  "finish out s os w = \<lparr>outcome = out, sig = s, orders = os, low_margin_branch = w\<rparr>"

text \<open>Lines 1252 to 1528: sizing, precision and routing of a signal that passed the gate.\<close>

definition size_and_route :: "trader \<Rightarrow> gateway \<Rightarrow> signal_data \<Rightarrow> bool \<Rightarrow> result" where
  "size_and_route t g s w =
     (case price_sizing g of
        None \<Rightarrow> finish (Raised TypeError) s [] w
      | Some current_price \<Rightarrow>
          (case max_trade_limit t g s current_price of
             None \<Rightarrow> finish (Raised ZeroDivisionError) s [] w
           | Some (limit, is_closing_position) \<Rightarrow>
               (case precision_block g s current_price limit
                       (sized_amount t s limit is_closing_position) of
                  Inl out \<Rightarrow> finish out s [] w
                | Inr trade_amount \<Rightarrow>
                    (if trade_amount \<le> 0 then finish Non_positive s [] w
                     else (case route_order t g s trade_amount of
                             (out, os) \<Rightarrow> finish out s os w)))))"

text \<open>
  Lines 1154 to 1528, for a dictionary that holds a string under \<^verbatim>\<open>confidence\<close> and
  under \<^verbatim>\<open>reason\<close>.
\<close>

definition execute_trade :: "trader \<Rightarrow> gateway \<Rightarrow> signal_data \<Rightarrow> result" where
  "execute_trade t g signal_data =
     (case price_entry g of
        None \<Rightarrow> finish (Raised TypeError) signal_data [] False
      | Some current_price \<Rightarrow>
          (let s1 = confidence_filter t signal_data
           in if signal s1 = ''HOLD'' then finish Hold s1 [] False
              else
                (case profit_filter t (get_current_position (symbol g) (fetch_positions g))
                        current_price s1 of
                   (s2, w) \<Rightarrow>
                     (if test_mode t then finish Test_mode s2 [] w
                      else if slippage_cancelled t g then finish Slippage_cancel s2 [] w
                      else size_and_route t g s2 w))))"

section \<open>The dictionary that \<^verbatim>\<open>execute_trade\<close> receives\<close>

text \<open>
  \<^verbatim>\<open>execute_trade\<close> is called by \<^verbatim>\<open>run\<close> on the object that
  \<^verbatim>\<open>analyze_with_deepseek\<close> parsed from the advisor's answer. Lines 1116 to 1134 write
  the keys \<^verbatim>\<open>signal\<close> (a string) and \<^verbatim>\<open>amount\<close> (a number); the keys
  \<^verbatim>\<open>confidence\<close> and \<^verbatim>\<open>reason\<close> are there only if the advisor gave them
  (\<open>None\<close> is an absent key), and the confidence is whatever JSON value the advisor
  gave. A reason that is present is a string.
\<close>

record signal_dict =
  d_signal :: string
  d_confidence :: "py_value option"
  d_amount :: real
  d_reason :: "string option"

text \<open>
  Line 1181: \<^verbatim>\<open>confidence_levels.get(signal_data.get('confidence', 'LOW').upper(), 1)\<close>.
  An absent key ranks as \<open>LOW\<close>; a value that is not a string has no \<^verbatim>\<open>upper\<close>
  (\<open>None\<close>, the \<open>AttributeError\<close>).
\<close>

definition dict_conf_val :: "signal_dict \<Rightarrow> nat option" where
  "dict_conf_val d =
     (case (case d_confidence d of None \<Rightarrow> Str ''LOW'' | Some v \<Rightarrow> v) of
        Non_str \<Rightarrow> None
      | Str c \<Rightarrow> Some (case confidence_levels (upper c) of None \<Rightarrow> 1 | Some v \<Rightarrow> v))"

text \<open>
  Lines 1154 to 1528 on the dictionary as received. The subscript of line 1167 raises on
  an absent \<^verbatim>\<open>confidence\<close> (the default of \<^verbatim>\<open>get\<close> is evaluated before the call), the
  subscript of line 1174 on an absent \<^verbatim>\<open>reason\<close>, and line 1181 on a confidence that is
  not a string. Nothing in \<^verbatim>\<open>execute_trade\<close>, \<^verbatim>\<open>run\<close> or \<^verbatim>\<open>job\<close> catches these:
  \<open>Inl\<close> is the exception together with the dictionary, to which nothing has been
  written. Otherwise the call goes on as \<open>execute_trade\<close>.
\<close>

definition execute_trade_dict ::
  "trader \<Rightarrow> gateway \<Rightarrow> signal_dict \<Rightarrow> (py_error \<times> signal_dict) + result" where
  "execute_trade_dict t g d =
     (case d_confidence d of
        None \<Rightarrow> Inl (KeyError, d)
      | Some v \<Rightarrow>
          (case price_entry g of
             None \<Rightarrow> Inl (TypeError, d)
           | Some current_price \<Rightarrow>
               (case d_reason d of
                  None \<Rightarrow> Inl (KeyError, d)
                | Some r \<Rightarrow>
                    (case v of
                       Non_str \<Rightarrow> Inl (AttributeError, d)
                     | Str c \<Rightarrow>
                         Inr (execute_trade t g
                                \<lparr>signal = d_signal d, confidence = c, amount = d_amount d,
                                  reason = r\<rparr>)))))"

section \<open>RiskManager\<close>

text \<open>The fields of \<^verbatim>\<open>RiskManager\<close> that the check reads and writes.\<close>

record risk_manager =
  rm_initial_balance :: "real option"
  max_profit :: "real option"
  max_loss :: "real option"
  max_profit_pct :: "real option"
  max_loss_pct :: "real option"
  smart_baseline :: "real option"

text \<open>
  The two files: \<^verbatim>\<open>bot_state.json\<close> (\<open>None\<close> while it does not exist, otherwise the
  stored baseline, which may be null) and the rows of \<^verbatim>\<open>pnl_history.csv\<close> (total
  equity, profit, profit in percent; the timestamp is left out).
\<close>

record files =
  state_file :: "real option option"
  ledger :: "(real \<times> real \<times> real) list"

text \<open>
  An entry of \<^verbatim>\<open>balance['info']['data'][0]['details']\<close>; \<open>eq\<close> is \<open>None\<close> when
  \<^verbatim>\<open>float(asset['eq'])\<close> raises.
\<close>

record asset =
  ccy :: string
  eq :: "real option"

datatype details =
    No_details             \<comment> \<open>the key \<^verbatim>\<open>info\<close> or \<^verbatim>\<open>data\<close> is absent\<close>
  | Bad_details            \<comment> \<open>a subscript of line 280 or 281 raises\<close>
  | Details "asset list"

text \<open>
  \<^verbatim>\<open>balance['USDT']\<close>: a field is \<open>None\<close> when its key is absent, and \<open>Null\<close> when it
  holds Python's \<^verbatim>\<open>None\<close>, on which \<^verbatim>\<open>float\<close> raises.
\<close>

record usdt_entry =
  usdt_equity :: "py_number option"
  usdt_total :: "py_number option"

record balance =
  info_details :: details
  usdt :: "usdt_entry option"

text \<open>
  What one trader returns to the risk manager: the reads of
  \<^verbatim>\<open>initialize_baseline\<close> and the reads of \<^verbatim>\<open>check\<close>.
\<close>

record trader_view =
  tv_symbol :: string
  tv_trade_mode :: string
  tv_init_ohlcv_price :: "real option"      \<comment> \<open>lines 437 to 439, \<open>None\<close> when there is none\<close>
  tv_init_spot_balance :: real              \<comment> \<open>line 444\<close>
  tv_init_position_size :: "real option"    \<comment> \<open>lines 452 to 454, \<open>None\<close> without a position\<close>
  tv_avg_entry_price :: real                \<comment> \<open>line 464\<close>
  tv_spot_balance :: real                   \<comment> \<open>line 318\<close>
  tv_ticker_last :: "py_number option"      \<comment> \<open>lines 324 and 325, \<open>None\<close> when they raise\<close>

text \<open>
  The tickers of a batch map a symbol to the value under \<^verbatim>\<open>last\<close>, which may be
  Python's \<^verbatim>\<open>None\<close>; the batch is \<open>None\<close> when \<^verbatim>\<open>fetch_tickers\<close> raises.
\<close>

record risk_env =
  fetch_balance :: "balance option"                    \<comment> \<open>line 274, \<open>None\<close> when it raises\<close>
  init_tickers :: "(string \<Rightarrow> py_number option) option"  \<comment> \<open>line 409\<close>
  check_tickers :: "(string \<Rightarrow> py_number option) option" \<comment> \<open>line 310\<close>
  traders :: "trader_view list"
  state_writable :: bool                               \<comment> \<open>the write of line 126 succeeds\<close>
  csv_writable :: bool                                 \<comment> \<open>the write of line 166 succeeds\<close>

text \<open>\<^verbatim>\<open>float(v)\<close> on a number or on \<^verbatim>\<open>None\<close>; \<open>None\<close> is the \<open>TypeError\<close>.\<close>

definition py_float :: "py_number \<Rightarrow> real option" where
  "py_float v = (case v of Number x \<Rightarrow> Some x | Null \<Rightarrow> None)"

text \<open>Lines 279 to 293; \<open>None\<close> is an exception, caught at line 385.\<close>

fun find_usdt :: "asset list \<Rightarrow> real option option" where
  "find_usdt [] = None"
| "find_usdt (a # as) = (if ccy a = ''USDT'' then Some (eq a) else find_usdt as)"

definition usdt_fallback :: "balance \<Rightarrow> real option" where
  "usdt_fallback b =
     (case usdt b of
        None \<Rightarrow> Some 0
      | Some u \<Rightarrow>
          (case usdt_equity u of
             Some e \<Rightarrow> py_float e
           | None \<Rightarrow> (case usdt_total u of Some tot \<Rightarrow> py_float tot | None \<Rightarrow> Some 0)))"

definition fetch_equity :: "balance \<Rightarrow> real option" where
  "fetch_equity b =
     (case info_details b of
        Bad_details \<Rightarrow> None
      | No_details \<Rightarrow> usdt_fallback b
      | Details assets \<Rightarrow>
          (case find_usdt assets of
             None \<Rightarrow> usdt_fallback b
           | Some None \<Rightarrow> None
           | Some (Some e) \<Rightarrow> Some e))"

text \<open>
  Lines 274 to 293: the value of \<^verbatim>\<open>total_equity\<close> at line 295, \<open>None\<close> when an
  exception was raised on the way.
\<close>

definition read_equity :: "risk_env \<Rightarrow> real option" where
  "read_equity env = (case fetch_balance env of None \<Rightarrow> None | Some b \<Rightarrow> fetch_equity b)"

text \<open>Lines 122 to 129: a failing write is swallowed.\<close>

definition save_state :: "risk_manager \<Rightarrow> risk_env \<Rightarrow> files \<Rightarrow> files" where
  "save_state rm env fs =
     (if state_writable env then fs\<lparr>state_file := Some (smart_baseline rm)\<rparr> else fs)"

text \<open>Lines 161 to 184.\<close>

definition record_pnl_to_csv :: "risk_env \<Rightarrow> real \<Rightarrow> real \<Rightarrow> real \<Rightarrow> files \<Rightarrow> files" where
  "record_pnl_to_csv env total_equity current_pnl pnl_percent fs =
     (if csv_writable env
      then fs\<lparr>ledger := ledger fs @ [(total_equity, current_pnl, pnl_percent)]\<rparr>
      else fs)"

text \<open>\<^verbatim>\<open>prices.get(symbol, 0)\<close> on the dictionary built from the batch of tickers.\<close>

definition batch_price :: "(string \<Rightarrow> py_number option) option \<Rightarrow> string \<Rightarrow> py_number" where
  "batch_price tickers symb =
     (case tickers of
        None \<Rightarrow> Number 0
      | Some m \<Rightarrow> (case m symb of None \<Rightarrow> Number 0 | Some p \<Rightarrow> p))"

text \<open>
  Lines 433 to 441: the price of a row of the table; \<^verbatim>\<open>None == 0\<close> is false, so a
  \<^verbatim>\<open>None\<close> from the batch stays.
\<close>

definition init_price :: "risk_env \<Rightarrow> trader_view \<Rightarrow> py_number" where
  "init_price env tv =
     (let p0 = batch_price (init_tickers env) (tv_symbol tv)
      in if p0 = Number 0
         then (case tv_init_ohlcv_price tv of None \<Rightarrow> p0 | Some p \<Rightarrow> Number p)
         else p0)"

text \<open>
  Lines 443 to 471: the value one trader adds to \<^verbatim>\<open>total_position_value\<close>. \<open>None\<close> is
  the \<open>TypeError\<close> of \<^verbatim>\<open>current_price > 0\<close> on a price that is \<^verbatim>\<open>None\<close>, at line
  445 for a spot holding and at line 469 for a contracts position with a known entry
  price; it leaves \<^verbatim>\<open>initialize_baseline\<close>.
\<close>

definition init_position_val :: "risk_env \<Rightarrow> trader_view \<Rightarrow> real option" where
  "init_position_val env tv =
     (if tv_trade_mode tv = ''cash'' then
        (if tv_init_spot_balance tv > 0 then
           (case init_price env tv of
              Null \<Rightarrow> None
            | Number current_price \<Rightarrow>
                Some (if current_price > 0 then tv_init_spot_balance tv * current_price else 0))
         else Some 0)
      else
        (if tv_avg_entry_price tv > 0
            \<and> (case tv_init_position_size tv of None \<Rightarrow> 0 | Some sz \<Rightarrow> sz) > 0
         then (case init_price env tv of Null \<Rightarrow> None | Number current_price \<Rightarrow> Some 0)
         else Some 0))"

fun add_position_values :: "risk_env \<Rightarrow> trader_view list \<Rightarrow> real \<Rightarrow> real option" where
  "add_position_values env [] acc = Some acc"
| "add_position_values env (tv # tvs) acc =
     (case init_position_val env tv of
        None \<Rightarrow> None
      | Some v \<Rightarrow> add_position_values env tvs (acc + v))"

definition total_position_value :: "risk_env \<Rightarrow> real option" where
  "total_position_value env = add_position_values env (traders env) 0.0"

definition real_total_equity :: "risk_env \<Rightarrow> real \<Rightarrow> real option" where
  "real_total_equity env current_usdt_equity =
     map_option (\<lambda>v. current_usdt_equity + v) (total_position_value env)"

text \<open>
  Lines 481 to 505. The printed table (quota, usage, entry price, estimated profit)
  changes no state and is left out.
\<close>

definition calibrate :: "risk_manager \<Rightarrow> real \<Rightarrow> risk_manager" where
  "calibrate rm rte =
     (if set_and (rm_initial_balance rm) (\<lambda>ib. ib > 0) then
        (case rm_initial_balance rm of
           None \<Rightarrow> rm
         | Some ib \<Rightarrow>
             (let gap_percent = \<bar>rte - ib\<bar> / ib * 100
              in if gap_percent > 10.0 then rm\<lparr>smart_baseline := Some rte\<rparr>
                 else if \<not> truthy (smart_baseline rm) then rm\<lparr>smart_baseline := Some ib\<rparr>
                 else rm))
      else if \<not> truthy (smart_baseline rm) then rm\<lparr>smart_baseline := Some rte\<rparr>
      else rm)"

text \<open>
  Lines 388 to 507; \<open>None\<close> when the exception of a row leaves the function, before any
  state is written.
\<close>

definition initialize_baseline ::
  "risk_manager \<Rightarrow> risk_env \<Rightarrow> real \<Rightarrow> files \<Rightarrow> (risk_manager \<times> files) option" where
  "initialize_baseline rm env current_usdt_equity fs =
     (case real_total_equity env current_usdt_equity of
        None \<Rightarrow> None
      | Some rte \<Rightarrow> (let rm' = calibrate rm rte in Some (rm', save_state rm' env fs)))"

text \<open>
  Lines 303 to 328: the equity plus the value of the spot holdings. \<open>None\<close> is the
  \<open>TypeError\<close> of line 328 on a price that is \<^verbatim>\<open>None\<close>.
\<close>

definition check_prices :: "risk_env \<Rightarrow> (string \<Rightarrow> py_number option) option" where
  "check_prices env =
     (if filter (\<lambda>tv. tv_trade_mode tv = ''cash'') (traders env) \<noteq> []
      then check_tickers env else None)"

definition spot_value :: "risk_env \<Rightarrow> trader_view \<Rightarrow> real option" where
  "spot_value env tv =
     (if tv_trade_mode tv = ''cash'' then
        (if tv_spot_balance tv > 0 then
           (let p0 = batch_price (check_prices env) (tv_symbol tv);
                price = (if p0 = Number 0
                         then (case tv_ticker_last tv of None \<Rightarrow> p0 | Some p \<Rightarrow> p)
                         else p0)
            in case price of
                 Null \<Rightarrow> None
               | Number p \<Rightarrow> Some (tv_spot_balance tv * p))
         else Some 0)
      else Some 0)"

fun add_spot_values :: "risk_env \<Rightarrow> trader_view list \<Rightarrow> real \<Rightarrow> real option" where
  "add_spot_values env [] acc = Some acc"
| "add_spot_values env (tv # tvs) acc =
     (case spot_value env tv of
        None \<Rightarrow> None
      | Some v \<Rightarrow> add_spot_values env tvs (acc + v))"

definition current_total_value :: "risk_env \<Rightarrow> real \<Rightarrow> real option" where
  "current_total_value env total_equity = add_spot_values env (traders env) total_equity"

text \<open>
  What the halt does, in order (lines 359 to 363 and 379 to 383): the call of
  \<^verbatim>\<open>close_all_traders\<close>, the call of \<^verbatim>\<open>send_notification\<close> (neither raises: lines 141
  to 159 and 186 to 193 catch every exception), and \<^verbatim>\<open>sys.exit(0)\<close>, whose
  \<open>SystemExit\<close> is not an \<^verbatim>\<open>Exception\<close> and passes the handler of line 385.
\<close>

datatype trigger = Profit_amount | Profit_rate | Loss_amount | Loss_rate

datatype event = Close_all_traders | Send_notification trigger | Sys_exit

definition halt :: "trigger \<Rightarrow> event list" where
  "halt trg = [Close_all_traders, Send_notification trg, Sys_exit]"

text \<open>Lines 346 to 356 and 366 to 376.\<close>

definition take_profit :: "risk_manager \<Rightarrow> real \<Rightarrow> real \<Rightarrow> trigger option" where
  "take_profit rm current_pnl pnl_percent =
     (if set_and (max_profit rm) (\<lambda>m. current_pnl \<ge> m) then Some Profit_amount
      else if set_and (max_profit_pct rm) (\<lambda>r. pnl_percent \<ge> r * 100) then Some Profit_rate
      else None)"

definition stop_loss :: "risk_manager \<Rightarrow> real \<Rightarrow> real \<Rightarrow> trigger option" where
  "stop_loss rm current_pnl pnl_percent =
     (if set_and (max_loss rm) (\<lambda>m. current_pnl \<le> - m) then Some Loss_amount
      else if set_and (max_loss_pct rm) (\<lambda>r. pnl_percent \<le> - (r * 100)) then Some Loss_rate
      else None)"

text \<open>Lines 345 to 383: the events of the cycle once profit and loss are known.\<close>

definition check_thresholds :: "risk_manager \<Rightarrow> real \<Rightarrow> real \<Rightarrow> event list" where
  "check_thresholds rm current_pnl pnl_percent =
     (case take_profit rm current_pnl pnl_percent of
        Some trg \<Rightarrow> halt trg
      | None \<Rightarrow>
          (case stop_loss rm current_pnl pnl_percent of
             Some trg \<Rightarrow> halt trg
           | None \<Rightarrow> []))"

text \<open>The state after a cycle and the events of the cycle.\<close>

record cycle =
  manager :: risk_manager
  disk :: files
  events :: "event list"

text \<open>
  Lines 272 to 338: \<open>Inl\<close> is an early return, or an exception caught at line 385, with
  the state it leaves; \<open>Inr\<close> carries the state, the profit and the profit in percent to
  the threshold tests. The hourly display of lines 341 to 343 writes no state.
\<close>

definition check_accounting ::
  "risk_manager \<Rightarrow> risk_env \<Rightarrow> files \<Rightarrow>
     (risk_manager \<times> files) + (risk_manager \<times> files \<times> real \<times> real)" where
  "check_accounting rm env fs =
     (case read_equity env of
        None \<Rightarrow> Inl (rm, fs)
      | Some total_equity \<Rightarrow>
          (if total_equity \<le> 0 then Inl (rm, fs)
           else
             (case (if smart_baseline rm = None
                    then initialize_baseline rm env total_equity fs else Some (rm, fs)) of
                None \<Rightarrow> Inl (rm, fs)
              | Some (rm1, fs1) \<Rightarrow>
                  (case current_total_value env total_equity of
                     None \<Rightarrow> Inl (rm1, fs1)
                   | Some total_value \<Rightarrow>
                       (case smart_baseline rm1 of
                          None \<Rightarrow> Inl (rm1, fs1)
                        | Some base \<Rightarrow>
                            (if base = 0 \<or> base \<le> 0 then Inl (rm1, fs1)
                             else
                               (let current_pnl = total_value - base;
                                    pnl_percent = (current_pnl / base) * 100
                                in Inr (rm1,
                                        record_pnl_to_csv env total_value
                                          current_pnl pnl_percent fs1,
                                        current_pnl, pnl_percent))))))))"

text \<open>Lines 270 to 386.\<close>

definition check :: "risk_manager \<Rightarrow> risk_env \<Rightarrow> files \<Rightarrow> cycle" where
  "check rm env fs =
     (case check_accounting rm env fs of
        Inl (rm1, fs1) \<Rightarrow> \<lparr>manager = rm1, disk = fs1, events = []\<rparr>
      | Inr (rm1, fs1, current_pnl, pnl_percent) \<Rightarrow>
          \<lparr>manager = rm1, disk = fs1,
            events = check_thresholds rm1 current_pnl pnl_percent\<rparr>)"

section \<open>The quantity of a spot sale\<close>

text \<open>
  What a spot SELL sends when it sends an order: the smaller of the advisor's amount and
  the holding read at line 1330, passed through \<^verbatim>\<open>amount_to_precision\<close> (line 1395), or
  rounded to four decimals when the market lookup raises (line 1423). \<open>None\<close> when the
  precision call raises.
\<close>

definition spot_sell_quantity :: "gateway \<Rightarrow> signal_data \<Rightarrow> real option" where
  "spot_sell_quantity g s =
     (case market g of
        None \<Rightarrow> Some (round4 (min (amount s) (spot_balance_held g)))
      | Some m \<Rightarrow> amount_to_precision g (min (amount s) (spot_balance_held g)))"

section \<open>Concrete inputs\<close>

text \<open>A venue that truncates quantities to two decimals and accepts every order.\<close>

definition truncate2 :: "real \<Rightarrow> real option" where
  "truncate2 x = Some (of_int \<lfloor>x * 100\<rfloor> / 100)"

text \<open>
  A spot trader with no configured capital, 5.1 USDT free, price 1, minimum notional 5,
  and a BUY signal for 3 units.
\<close>

definition spot_trader :: trader where
  "spot_trader =
     \<lparr>self_amount = 3, allocation = 1.0, leverage = 1, trade_mode = ''cash'',
       test_mode = False, max_slippage = 1.0, min_confidence = ''MEDIUM'',
       taker_fee_rate = 0.001, initial_balance = None\<rparr>"

definition small_account :: gateway where
  "small_account =
     \<lparr>symbol = ''ETH/USDT'', fetch_positions = Some [], price_entry = Some 1,
       ticker_last = Some 1, price_analysis = Some 1, price_sizing = Some 1,
       account_balance = 5.1, spot_balance_used = 0, spot_balance_held = 0,
       market = Some \<lparr>min_amount = Some 0.01, min_cost = Some 5\<rparr>,
       amount_to_precision = truncate2, coin_balance = Some 0,
       order_accepted = (\<lambda>_. True)\<rparr>"

definition buy_signal :: signal_data where
  "buy_signal = \<lparr>signal = ''BUY'', confidence = ''MEDIUM'', amount = 3, reason = ''breakout''\<rparr>"

text \<open>A spot account holding 2 units at price 100, and a SELL signal for 1.239 units.\<close>

definition spot_holder :: gateway where
  "spot_holder =
     \<lparr>symbol = ''ETH/USDT'', fetch_positions = Some [], price_entry = Some 100,
       ticker_last = Some 100, price_analysis = Some 100, price_sizing = Some 100,
       account_balance = 50, spot_balance_used = 2, spot_balance_held = 2,
       market = Some \<lparr>min_amount = Some 0.01, min_cost = Some 5\<rparr>,
       amount_to_precision = truncate2, coin_balance = Some 2,
       order_accepted = (\<lambda>_. True)\<rparr>"

definition sell_signal :: signal_data where
  "sell_signal =
     \<lparr>signal = ''SELL'', confidence = ''MEDIUM'', amount = 1.239, reason = ''trend exhausted''\<rparr>"

text \<open>
  A cross-margin trader with fee rate 0.001 and a long position of 5 contracts entered at
  10000; the price is 10015 (profit 0.15 percent), 10030 (0.30 percent) or 11000.
\<close>

definition margin_trader :: trader where
  "margin_trader =
     \<lparr>self_amount = 1, allocation = 1.0, leverage = 3, trade_mode = ''cross'',
       test_mode = False, max_slippage = 1.0, min_confidence = ''MEDIUM'',
       taker_fee_rate = 0.001, initial_balance = None\<rparr>"

definition long_at :: "real \<Rightarrow> gateway" where
  "long_at price =
     \<lparr>symbol = ''ETH/USDT:USDT'',
       fetch_positions =
         Some [\<lparr>rp_symbol = ''ETH/USDT:USDT'', rp_side = ''long'', contracts = Some 5,
                 entryPrice = Some 10000, unrealizedPnl = None\<rparr>],
       price_entry = Some price, ticker_last = Some price, price_analysis = Some price,
       price_sizing = Some price, account_balance = 50000, spot_balance_used = 0,
       spot_balance_held = 0,
       market = Some \<lparr>min_amount = Some 0.01, min_cost = None\<rparr>,
       amount_to_precision = truncate2, coin_balance = None,
       order_accepted = (\<lambda>_. True)\<rparr>"

text \<open>
  The same trader with an initial balance of 100 and an allocation of 0.1: a quota of 10
  USDT.
\<close>

definition capped_margin_trader :: trader where
  "capped_margin_trader = margin_trader\<lparr>allocation := 0.1, initial_balance := Some 100\<rparr>"

text \<open>
  Three answers of the advisor: a BUY without the key \<^verbatim>\<open>confidence\<close>, a BUY of
  confidence LOW without the key \<^verbatim>\<open>reason\<close>, and a SELL with both.
\<close>

definition unrated_signal :: signal_dict where
  "unrated_signal =
     \<lparr>d_signal = ''BUY'', d_confidence = None, d_amount = 3, d_reason = Some ''breakout''\<rparr>"

definition unexplained_signal :: signal_dict where
  "unexplained_signal =
     \<lparr>d_signal = ''BUY'', d_confidence = Some (Str ''LOW''), d_amount = 3, d_reason = None\<rparr>"

definition sell_dict :: signal_dict where
  "sell_dict =
     \<lparr>d_signal = ''SELL'', d_confidence = Some (Str ''MEDIUM''), d_amount = 1.239,
       d_reason = Some ''trend exhausted''\<rparr>"

text \<open>
  A spot trader with initial balance 100 and allocation 1.0, holding 20 units at price 2
  with 200 USDT free, and a BUY signal of confidence HIGH for 50 units.
\<close>

definition quota_trader :: trader where
  "quota_trader = spot_trader\<lparr>initial_balance := Some 100\<rparr>"

definition quota_account :: gateway where
  "quota_account =
     small_account\<lparr>price_entry := Some 2, ticker_last := Some 2, price_analysis := Some 2,
       price_sizing := Some 2, account_balance := 200, spot_balance_used := 20\<rparr>"

definition eager_buy_signal :: signal_data where
  "eager_buy_signal =
     \<lparr>signal = ''BUY'', confidence = ''HIGH'', amount = 50, reason = ''breakout''\<rparr>"

text \<open>
  A risk manager with initial balance 1000, a profit limit of 50 USDT and a loss limit of
  10 percent; one spot trader holding ETH; the USDT equity is given.
\<close>

definition guard :: risk_manager where
  "guard =
     \<lparr>rm_initial_balance = Some 1000, max_profit = Some 50, max_loss = None,
       max_profit_pct = None, max_loss_pct = Some 0.1, smart_baseline = None\<rparr>"

definition account :: "real \<Rightarrow> real \<Rightarrow> risk_env" where
  "account usdt_eq holding =
     \<lparr>fetch_balance =
         Some \<lparr>info_details = Details [\<lparr>ccy = ''BTC'', eq = Some 1\<rparr>,
                                        \<lparr>ccy = ''USDT'', eq = Some usdt_eq\<rparr>],
               usdt = None\<rparr>,
       init_tickers = Some (map_of [(''ETH/USDT'', Number 2)]), check_tickers = None,
       traders =
         [\<lparr>tv_symbol = ''ETH/USDT'', tv_trade_mode = ''cash'', tv_init_ohlcv_price = None,
            tv_init_spot_balance = holding, tv_init_position_size = None,
            tv_avg_entry_price = 0, tv_spot_balance = holding,
            tv_ticker_last = Some (Number 2)\<rparr>],
       state_writable = True, csv_writable = True\<rparr>"

definition no_files :: files where
  "no_files = \<lparr>state_file = None, ledger = []\<rparr>"

text \<open>A risk manager with no threshold set, and one with every threshold set.\<close>

definition idle_guard :: risk_manager where
  "idle_guard =
     \<lparr>rm_initial_balance = Some 1000, max_profit = None, max_loss = None,
       max_profit_pct = None, max_loss_pct = None, smart_baseline = Some 1000\<rparr>"

definition full_guard :: risk_manager where
  "full_guard =
     \<lparr>rm_initial_balance = Some 1000, max_profit = Some 50, max_loss = Some 50,
       max_profit_pct = Some 0.01, max_loss_pct = Some 0.01, smart_baseline = Some 1000\<rparr>"

text \<open>An account whose balance cannot be fetched, and one without any USDT entry.\<close>

definition unreachable_account :: risk_env where
  "unreachable_account = (account 1000 100)\<lparr>fetch_balance := None\<rparr>"

definition empty_account :: risk_env where
  "empty_account =
     (account 1000 100)\<lparr>fetch_balance := Some \<lparr>info_details = No_details, usdt = None\<rparr>\<rparr>"

section \<open>Helper facts\<close>

lemma set_and_simps:
  "set_and None P = False" "set_and (Some x) P = (x \<noteq> 0 \<and> P x)"
  by (simp_all add: set_and_def)

lemma confidence_levels_table:
  "confidence_levels ''LOW'' = Some 1" "confidence_levels ''MEDIUM'' = Some 2"
  "confidence_levels ''HIGH'' = Some 3"
  by (simp_all add: confidence_levels_def)

lemma sig_size_and_route: "sig (size_and_route t g s w) = s"
  by (simp add: size_and_route_def finish_def split: option.splits sum.splits prod.splits)

lemma warning_size_and_route: "low_margin_branch (size_and_route t g s w) = w"
  by (simp add: size_and_route_def finish_def split: option.splits sum.splits prod.splits)

lemma route_order_other:
  "signal s \<noteq> ''BUY'' \<Longrightarrow> signal s \<noteq> ''SELL'' \<Longrightarrow> snd (route_order t g s q) = []"
  by (simp add: route_order_def)

lemma orders_size_and_route_other:
  assumes "signal s \<noteq> ''BUY''" "signal s \<noteq> ''SELL''"
  shows "orders (size_and_route t g s w) = []"
  using assms
  by (auto simp add: size_and_route_def finish_def route_order_def
      split: option.splits sum.splits prod.splits)

section \<open>Properties of the signal gate\<close>

text \<open>
  On a dictionary that holds a string under \<^verbatim>\<open>confidence\<close> and under \<^verbatim>\<open>reason\<close>,
  a confidence that ranks below the configured minimum (LOW = 1, MEDIUM = 2, HIGH = 3,
  \<open>confidence_levels_table\<close>) forces the signal to HOLD and no order is sent: the order
  list of \<open>execute_trade\<close> is empty, and when the price read of line 1170 returns, the
  call ends at the HOLD return of line 1192.
\<close>

lemma low_confidence_forces_hold:
  assumes "current_conf_val s < min_conf_val t"
  shows "signal (confidence_filter t s) = ''HOLD''
     \<and> orders (execute_trade t g s) = []
     \<and> (price_entry g \<noteq> None \<longrightarrow>
          outcome (execute_trade t g s) = Hold
          \<and> signal (sig (execute_trade t g s)) = ''HOLD'')"
  using assms
  by (simp add: confidence_filter_def execute_trade_def finish_def split: option.splits)

text \<open>
  On the dictionary as received, a confidence that ranks below the minimum never leads to
  an order; the signal is forced to HOLD when the call reaches the filter, and is left as
  it was when an exception leaves the call before.
\<close>

lemma current_conf_val_record:
  "current_conf_val \<lparr>signal = a, confidence = c, amount = b, reason = r\<rparr>
     = (case confidence_levels (upper c) of None \<Rightarrow> 1 | Some v \<Rightarrow> v)"
  by (simp add: current_conf_val_def)

lemma low_confidence_dict:
  assumes "dict_conf_val d = Some k" "k < min_conf_val t"
  shows "(case execute_trade_dict t g d of
            Inl (e, d') \<Rightarrow> d' = d
          | Inr res \<Rightarrow> outcome res = Hold \<and> signal (sig res) = ''HOLD'' \<and> orders res = [])"
proof (cases "execute_trade_dict t g d")
  case (Inl a)
  then show ?thesis
    by (auto simp add: execute_trade_dict_def split: option.splits py_value.splits)
next
  case (Inr res)
  then obtain c r price where c: "d_confidence d = Some (Str c)" and r: "d_reason d = Some r"
    and p: "price_entry g = Some price"
    and e: "res = execute_trade t g
              \<lparr>signal = d_signal d, confidence = c, amount = d_amount d, reason = r\<rparr>"
    by (auto simp add: execute_trade_dict_def split: option.splits py_value.splits)
  let ?s = "\<lparr>signal = d_signal d, confidence = c, amount = d_amount d, reason = r\<rparr>"
  have "current_conf_val ?s = k"
    using assms(1) c by (simp add: dict_conf_val_def current_conf_val_record)
  with assms(2) have "current_conf_val ?s < min_conf_val t" by simp
  then have "signal (confidence_filter t ?s) = ''HOLD''
     \<and> orders (execute_trade t g ?s) = []
     \<and> outcome (execute_trade t g ?s) = Hold
     \<and> signal (sig (execute_trade t g ?s)) = ''HOLD''"
    using p by (simp add: confidence_filter_def execute_trade_def finish_def)
  with Inr e show ?thesis by simp
qed

text \<open>
  C3. The claim is that every signal whose confidence ranks below the configured minimum
  is forced to HOLD by the confidence filter, whatever its other fields. Line 1181 ranks
  a dictionary without the key \<^verbatim>\<open>confidence\<close> as LOW, below the minimum MEDIUM, but the
  subscript \<^verbatim>\<open>signal_data['confidence']\<close> of line 1167 has raised \<open>KeyError\<close> before;
  a signal of confidence LOW without the key \<^verbatim>\<open>reason\<close> raises at line 1174. In both
  calls the filter of lines 1184 to 1188 is not reached and the action stays BUY. With
  both keys there, the same signal at confidence LOW is forced to HOLD.
\<close>

theorem missing_key_escapes_confidence_filter:
  "dict_conf_val unrated_signal = Some 1
   \<and> dict_conf_val unexplained_signal = Some 1
   \<and> min_conf_val spot_trader = 2
   \<and> d_signal unrated_signal = ''BUY''
   \<and> d_signal unexplained_signal = ''BUY''
   \<and> execute_trade_dict spot_trader small_account unrated_signal
       = Inl (KeyError, unrated_signal)
   \<and> execute_trade_dict spot_trader small_account unexplained_signal
       = Inl (KeyError, unexplained_signal)
   \<and> execute_trade_dict spot_trader small_account
         (unrated_signal\<lparr>d_confidence := Some (Str ''LOW'')\<rparr>)
       = Inr \<lparr>outcome = Hold,
              sig = \<lparr>signal = ''HOLD'', confidence = ''LOW'', amount = 3,
                      reason = ''breakout ['' @ conf_filter_label @ '': LOW < MEDIUM]''\<rparr>,
              orders = [], low_margin_branch = False\<rparr>"
  by code_simp

text \<open>Without a position the profit filter changes nothing.\<close>

lemma profit_filter_no_position: "profit_filter t None price s = (s, False)"
  by (simp add: profit_filter_def)

text \<open>
  C10. When \<^verbatim>\<open>get_current_position\<close> returns \<open>None\<close>, a SELL signal that passes the
  confidence filter is not touched by the fee-aware profit filter, at any price: the filter
  returns the signal as it is, without warning, and the signal that \<^verbatim>\<open>execute_trade\<close>
  leaves is the one it received.
\<close>

theorem no_position_skips_profit_filter:
  assumes "get_current_position (symbol g) (fetch_positions g) = None"
    and "signal s = ''SELL''"
    and "\<not> current_conf_val s < min_conf_val t"
  shows "profit_filter t (get_current_position (symbol g) (fetch_positions g)) price s = (s, False)
     \<and> sig (execute_trade t g s) = s"
  using assms
  by (simp add: profit_filter_no_position execute_trade_def confidence_filter_def finish_def
      sig_size_and_route split: option.splits)

text \<open>A spot holder has no contracts position; its SELL signal is left as it is.\<close>

theorem no_position_skips_profit_filter_witness:
  "get_current_position (symbol spot_holder) (fetch_positions spot_holder) = None
   \<and> signal sell_signal = ''SELL''
   \<and> \<not> current_conf_val sell_signal < min_conf_val spot_trader
   \<and> profit_filter spot_trader
        (get_current_position (symbol spot_holder) (fetch_positions spot_holder)) 100 sell_signal
      = (sell_signal, False)
   \<and> sig (execute_trade spot_trader spot_holder sell_signal) = sell_signal"
proof -
  have a: "get_current_position (symbol spot_holder) (fetch_positions spot_holder) = None"
    by code_simp
  have b: "signal sell_signal = ''SELL''" by (simp add: sell_signal_def)
  have c: "\<not> current_conf_val sell_signal < min_conf_val spot_trader" by code_simp
  from no_position_skips_profit_filter[OF a b c, where price = 100] a b c
  show ?thesis by blast
qed

text \<open>A SELL signal that passes the confidence filter leaves the call as the profit filter made it.\<close>

lemma execute_trade_passed:
  assumes "price_entry g = Some price" "\<not> current_conf_val s < min_conf_val t"
    "signal s = ''SELL''"
    "profit_filter t (get_current_position (symbol g) (fetch_positions g)) price s = (s2, w)"
  shows "sig (execute_trade t g s) = s2 \<and> low_margin_branch (execute_trade t g s) = w
     \<and> (signal s2 = ''HOLD'' \<longrightarrow> orders (execute_trade t g s) = [])"
  using assms
  by (simp add: execute_trade_def confidence_filter_def finish_def sig_size_and_route
      warning_size_and_route orders_size_and_route_other)

text \<open>
  The sizer and the router never end a call with the HOLD return of line 1192, so a SELL
  signal that passes the confidence filter does not end there.
\<close>

lemma outcome_size_and_route: "outcome (size_and_route t g s w) \<noteq> Hold"
proof -
  have a: "x \<noteq> Hold" if "check_min_cost g s m price cap ta = Inl x" for x m price cap ta
    using that by (auto simp add: check_min_cost_def split: option.splits if_splits)
  have b: "x \<noteq> Hold" if "precision_block g s price cap ta = Inl x" for x price cap ta
    using that a
    by (auto simp add: precision_block_def Let_def split: option.splits if_splits)
  have c: "x \<noteq> Hold" if "route_order t g s q = (x, os)" for q x os
    using that by (auto simp add: route_order_def split: option.splits if_splits)
  show ?thesis
    using b c
    by (auto simp add: size_and_route_def finish_def
        split: option.splits sum.splits prod.splits)
qed

lemma execute_trade_not_hold:
  assumes "price_entry g = Some price" "\<not> current_conf_val s < min_conf_val t"
    "signal s = ''SELL''"
  shows "outcome (execute_trade t g s) \<noteq> Hold"
  using assms
  by (simp add: execute_trade_def confidence_filter_def finish_def outcome_size_and_route
      split: prod.splits)

text \<open>
  C4. With \<open>taker_fee_rate = 0.001\<close> and an open position, the minimum profit is
  \<open>2 * 0.001 + 0.0005 = 0.0025\<close>; a SELL signal at an unrealized profit of \<open>0.0015\<close> is
  forced to HOLD (and no order is sent), and at a profit of \<open>0.003\<close> it passes with its
  action and every field as it was and the call does not end at the HOLD return. The
  signal is one that carries a confidence and a reason and passes the confidence filter.
\<close>

theorem fee_filter_threshold_example:
  assumes "taker_fee_rate t = 0.001"
    and "get_current_position (symbol g) (fetch_positions g) = Some p"
    and "price_entry g = Some price"
    and "d_signal d = ''SELL''"
    and "d_confidence d = Some (Str c)"
    and "d_reason d = Some r"
    and "dict_conf_val d = Some k"
    and "min_conf_val t \<le> k"
  shows "min_profit_threshold t = 0.0025
     \<and> (pnl_pct p price = 0.0015 \<longrightarrow>
          (\<exists>res. execute_trade_dict t g d = Inr res
             \<and> signal (sig res) = ''HOLD'' \<and> orders res = []))
     \<and> (pnl_pct p price = 0.003 \<longrightarrow>
          (\<exists>res. execute_trade_dict t g d = Inr res
             \<and> sig res = \<lparr>signal = ''SELL'', confidence = c, amount = d_amount d, reason = r\<rparr>
             \<and> outcome res \<noteq> Hold))"
proof -
  let ?s = "\<lparr>signal = ''SELL'', confidence = c, amount = d_amount d, reason = r\<rparr>"
  have run: "execute_trade_dict t g d = Inr (execute_trade t g ?s)"
    using assms(3-6) by (simp add: execute_trade_dict_def)
  have "current_conf_val ?s = k"
    using assms(5,7) by (simp add: dict_conf_val_def current_conf_val_record)
  with assms(8) have conf: "\<not> current_conf_val ?s < min_conf_val t" by simp
  have sell: "signal ?s = ''SELL''" by simp
  have thr: "min_profit_threshold t = 0.0025"
    using assms(1) by (simp add: min_profit_threshold_def)
  have lo: "signal (sig (execute_trade t g ?s)) = ''HOLD'' \<and> orders (execute_trade t g ?s) = []"
    if "pnl_pct p price = 0.0015"
  proof -
    have "profit_filter t (get_current_position (symbol g) (fetch_positions g)) price ?s
          = (?s\<lparr>signal := ''HOLD'', reason := profit_block_reason t (pnl_pct p price)\<rparr>, False)"
      using assms(2) thr that by (simp add: profit_filter_def Let_def)
    from execute_trade_passed[OF assms(3) conf sell this] show ?thesis by simp
  qed
  have hi: "sig (execute_trade t g ?s) = ?s \<and> outcome (execute_trade t g ?s) \<noteq> Hold"
    if "pnl_pct p price = 0.003"
  proof -
    have "profit_filter t (get_current_position (symbol g) (fetch_positions g)) price ?s
          = (?s, True)"
      using assms(2) thr that by (simp add: profit_filter_def Let_def)
    from execute_trade_passed[OF assms(3) conf sell this]
      execute_trade_not_hold[OF assms(3) conf sell]
    show ?thesis by simp
  qed
  from thr lo hi run show ?thesis by simp
qed

text \<open>The position read from \<open>long_at\<close>.\<close>

lemma long_position: "get_current_position (symbol (long_at x)) (fetch_positions (long_at x))
   = Some \<lparr>side = ''long'', pos_size = 5, entry_price = 10000, unrealized_pnl = 0\<rparr>"
  by (simp add: long_at_def get_current_position_def float_or_0_def)

text \<open>A long position entered at 10000, with the price at 10015 and at 10030.\<close>

theorem fee_filter_threshold_example_witness:
  "taker_fee_rate margin_trader = 0.001
   \<and> d_signal sell_dict = ''SELL''
   \<and> d_confidence sell_dict = Some (Str ''MEDIUM'')
   \<and> d_reason sell_dict = Some ''trend exhausted''
   \<and> dict_conf_val sell_dict = Some 2
   \<and> min_conf_val margin_trader \<le> 2
   \<and> pnl_pct \<lparr>side = ''long'', pos_size = 5, entry_price = 10000, unrealized_pnl = 0\<rparr> 10015 = 0.0015
   \<and> pnl_pct \<lparr>side = ''long'', pos_size = 5, entry_price = 10000, unrealized_pnl = 0\<rparr> 10030 = 0.003
   \<and> min_profit_threshold margin_trader = 0.0025
   \<and> (\<exists>res. execute_trade_dict margin_trader (long_at 10015) sell_dict = Inr res
         \<and> signal (sig res) = ''HOLD'' \<and> orders res = [])
   \<and> (\<exists>res. execute_trade_dict margin_trader (long_at 10030) sell_dict = Inr res
         \<and> sig res = \<lparr>signal = ''SELL'', confidence = ''MEDIUM'', amount = d_amount sell_dict,
                        reason = ''trend exhausted''\<rparr>
         \<and> outcome res \<noteq> Hold)"
proof -
  have a: "taker_fee_rate margin_trader = 0.001" by (simp add: margin_trader_def)
  have b: "d_signal sell_dict = ''SELL''" by (simp add: sell_dict_def)
  have c: "d_confidence sell_dict = Some (Str ''MEDIUM'')" by (simp add: sell_dict_def)
  have r: "d_reason sell_dict = Some ''trend exhausted''" by (simp add: sell_dict_def)
  have k: "dict_conf_val sell_dict = Some 2" by code_simp
  have m: "min_conf_val margin_trader \<le> 2" by code_simp
  have d: "price_entry (long_at x) = Some x" for x by (simp add: long_at_def)
  have e1: "pnl_pct \<lparr>side = ''long'', pos_size = 5, entry_price = 10000, unrealized_pnl = 0\<rparr> 10015 = 0.0015"
    by (simp add: pnl_pct_def)
  have e2: "pnl_pct \<lparr>side = ''long'', pos_size = 5, entry_price = 10000, unrealized_pnl = 0\<rparr> 10030 = 0.003"
    by (simp add: pnl_pct_def)
  from fee_filter_threshold_example[OF a long_position d b c r k m, of 10015]
       fee_filter_threshold_example[OF a long_position d b c r k m, of 10030] a b c r k m e1 e2
  show ?thesis by blast
qed

text \<open>
  The warning of line 1224 is passed to \<^verbatim>\<open>_log\<close> with level \<open>warning\<close>, which emits
  nothing.
\<close>

lemma warning_level_is_dropped: "\<not> log_emits ''warning''"
  by (simp add: log_emits_def)

text \<open>
  C9. The claim is that a filter forcing HOLD keeps the original reason and appends to
  it. The confidence filter does (line 1188, \<^verbatim>\<open>+=\<close>); the profit filter assigns a new
  string (line 1220, \<^verbatim>\<open>=\<close>). For the SELL signal with reason \<open>trend exhausted\<close> at a
  profit of 0.15 percent, the reason afterwards is the message of line 1220 alone and
  does not start with the original reason.
\<close>

theorem fee_filter_replaces_reason:
  "reason sell_signal = ''trend exhausted''
   \<and> reason (sig (execute_trade margin_trader (long_at 10015) sell_signal))
       = ''['' @ risk_block_label @ ''] '' @ float_profit_label @ '' 0.15% ''
           @ fee_cover_label @ ''(0.200%)''
   \<and> take (length (reason sell_signal))
        (reason (sig (execute_trade margin_trader (long_at 10015) sell_signal)))
       \<noteq> reason sell_signal"
  by code_simp

section \<open>Properties of the sizing\<close>

text \<open>
  C1. The claim is that the quantity sent never exceeds \<open>max_trade_limit\<close>. With 5.1 USDT
  free at price 1 the limit of a spot BUY is \<open>5.1 * 0.99 = 5.049\<close>; the signal asks for 3
  units, below the minimum notional of 5; the guard of line 1411 holds
  (\<open>5.049 * 1 \<ge> 5\<close>) and the quantity becomes \<open>5 / 1 * 1.05 = 5.25\<close>, which is sent: more
  than the limit, and more than the free balance pays for.
\<close>

theorem min_notional_raise_exceeds_limit:
  "max_trade_limit spot_trader small_account buy_signal 1 = Some (5049 / 1000, False)
   \<and> map qty (orders (execute_trade spot_trader small_account buy_signal)) = [21 / 4]
   \<and> (5049 / 1000 :: real) < 21 / 4
   \<and> account_balance small_account < 21 / 4 * 1"
  by code_simp

text \<open>
  C5. When an initial balance is configured, the balance that sizes a purchase is
  \<open>min(free balance, max(0, quota - used capital))\<close>, where the quota is the initial
  balance times the allocation when the allocation is at most 1 and the allocation itself
  otherwise; the limit of a BUY is that balance times 0.99 (times the leverage in a
  contracts mode) over the price. With a quota of 100, a spot holding worth 40 at price 2
  and 200 free, the balance is 60 and the limit of a spot BUY is \<open>60 * 0.99 / 2 = 29.7\<close>.
\<close>

theorem fund_isolation_effective_balance:
  assumes "initial_balance t = Some ib" and "ib > 0"
  shows "effective_balance t g price
           = min (account_balance g) (max 0 (allocated_quota t ib - used_capital t g price))
     \<and> allocated_quota t ib = (if allocation t \<le> 1 then ib * allocation t else allocation t)
     \<and> (signal s = ''BUY'' \<and> trade_mode t = ''cash'' \<and> price \<noteq> 0 \<longrightarrow>
          max_trade_limit t g s price = Some (effective_balance t g price * 0.99 / price, False))
     \<and> (signal s = ''BUY'' \<and> trade_mode t \<noteq> ''cash'' \<and> price \<noteq> 0 \<longrightarrow>
          max_trade_limit t g s price
            = Some (effective_balance t g price * leverage t * 0.99 / price, False))
     \<and> (allocated_quota t ib = 100 \<and> trade_mode t = ''cash'' \<and> spot_balance_used g * 2 = 40
          \<and> account_balance g = 200 \<longrightarrow>
          effective_balance t g 2 = 60
          \<and> (signal s = ''BUY'' \<longrightarrow> max_trade_limit t g s 2 = Some (29.7, False)))"
proof -
  have eb: "effective_balance t g p
           = min (account_balance g) (max 0 (allocated_quota t ib - used_capital t g p))" for p
    using assms by (auto simp add: effective_balance_def set_and_def Let_def min_def max_def)
  have q: "allocated_quota t ib = (if allocation t \<le> 1 then ib * allocation t else allocation t)"
    by (simp add: allocated_quota_def)
  have b1: "max_trade_limit t g s price = Some (effective_balance t g price * 0.99 / price, False)"
    if "signal s = ''BUY''" "trade_mode t = ''cash''" "price \<noteq> 0"
    using that by (simp add: max_trade_limit_def py_div_def Let_def)
  have b2: "max_trade_limit t g s price
            = Some (effective_balance t g price * leverage t * 0.99 / price, False)"
    if "signal s = ''BUY''" "trade_mode t \<noteq> ''cash''" "price \<noteq> 0"
    using that by (simp add: max_trade_limit_def py_div_def Let_def)
  have ex: "effective_balance t g 2 = 60
          \<and> (signal s = ''BUY'' \<longrightarrow> max_trade_limit t g s 2 = Some (29.7, False))"
    if "allocated_quota t ib = 100" "trade_mode t = ''cash''" "spot_balance_used g * 2 = 40"
      "account_balance g = 200"
  proof -
    have u: "used_capital t g 2 = 40" using that(2,3) by (simp add: used_capital_def)
    have e: "effective_balance t g 2 = 60" using that(1,4) u by (simp add: eb)
    have "max_trade_limit t g s 2 = Some (29.7, False)" if "signal s = ''BUY''"
      using that \<open>trade_mode t = ''cash''\<close> e
      by (simp add: max_trade_limit_def py_div_def Let_def)
    with e show ?thesis by simp
  qed
  from eb[of price] q b1 b2 ex show ?thesis by blast
qed

text \<open>
  A trader with initial balance 100 and allocation 1.0 that holds 20 units at price 2; its
  BUY of 50 units at confidence HIGH is cut to 29.7.
\<close>

theorem fund_isolation_effective_balance_witness:
  "initial_balance quota_trader = Some 100 \<and> (100 :: real) > 0
   \<and> allocated_quota quota_trader 100 = 100
   \<and> trade_mode quota_trader = ''cash''
   \<and> spot_balance_used quota_account * 2 = 40
   \<and> account_balance quota_account = 200
   \<and> signal buy_signal = ''BUY''
   \<and> used_capital quota_trader quota_account 2 = 40
   \<and> effective_balance quota_trader quota_account 2 = 60
   \<and> max_trade_limit quota_trader quota_account buy_signal 2 = Some (29.7, False)
   \<and> map qty (orders (execute_trade quota_trader quota_account eager_buy_signal)) = [29.7]"
proof -
  have a: "initial_balance quota_trader = Some 100"
    by (simp add: quota_trader_def spot_trader_def)
  have b: "(100 :: real) > 0" by simp
  have c: "allocated_quota quota_trader 100 = 100"
    by (simp add: allocated_quota_def quota_trader_def spot_trader_def)
  have d: "trade_mode quota_trader = ''cash''" by (simp add: quota_trader_def spot_trader_def)
  have e: "spot_balance_used quota_account * 2 = 40"
    by (simp add: quota_account_def small_account_def)
  have f: "account_balance quota_account = 200"
    by (simp add: quota_account_def small_account_def)
  have h: "signal buy_signal = ''BUY''" by (simp add: buy_signal_def)
  have u: "used_capital quota_trader quota_account 2 = 40"
    using d e by (simp add: used_capital_def)
  have o: "map qty (orders (execute_trade quota_trader quota_account eager_buy_signal)) = [29.7]"
    by code_simp
  from fund_isolation_effective_balance[OF a b, where g = quota_account and s = buy_signal]
    a b c d e f h u o
  show ?thesis by simp
qed

section \<open>Properties of closing trades\<close>

text \<open>The filters leave the amount as it is, and the action as it is or HOLD.\<close>

lemma confidence_filter_fields:
  "amount (confidence_filter t s) = amount s"
  "signal (confidence_filter t s) = signal s \<or> signal (confidence_filter t s) = ''HOLD''"
  by (simp_all add: confidence_filter_def)

lemma profit_filter_fields:
  "amount (fst (profit_filter t cp price s)) = amount s"
  "signal (fst (profit_filter t cp price s)) = signal s
     \<or> signal (fst (profit_filter t cp price s)) = ''HOLD''"
  by (simp_all add: profit_filter_def Let_def split: option.splits)

lemma execute_trade_orders:
  "orders (execute_trade t g s) = [] \<or>
   (\<exists>s2 w. orders (execute_trade t g s) = orders (size_and_route t g s2 w)
      \<and> amount s2 = amount s \<and> (signal s2 = signal s \<or> signal s2 = ''HOLD''))"
proof (cases "price_entry g")
  case None
  then show ?thesis by (simp add: execute_trade_def finish_def)
next
  case (Some price)
  let ?s1 = "confidence_filter t s"
  let ?pf = "profit_filter t (get_current_position (symbol g) (fetch_positions g)) price ?s1"
  obtain s2 w where pf: "?pf = (s2, w)" by (cases ?pf) simp
  have a: "amount s2 = amount s"
    using profit_filter_fields(1)[of t "get_current_position (symbol g) (fetch_positions g)" price ?s1]
      pf confidence_filter_fields(1)[of t s] by simp
  have b: "signal s2 = signal s \<or> signal s2 = ''HOLD''"
    using profit_filter_fields(2)[of t "get_current_position (symbol g) (fetch_positions g)" price ?s1]
      pf confidence_filter_fields(2)[of t s] by auto
  have e: "orders (execute_trade t g s) = [] \<or>
      orders (execute_trade t g s) = orders (size_and_route t g s2 w)"
    using Some pf by (simp add: execute_trade_def finish_def Let_def)
  with a b show ?thesis by blast
qed

text \<open>A spot SELL: the quantity that leaves the precision block, and the order built from it.\<close>

lemma precision_block_sell:
  assumes "signal s = ''SELL''" "precision_block g s price cap ta = Inr q"
  shows "(case market g of None \<Rightarrow> Some (round4 ta) | Some m \<Rightarrow> amount_to_precision g ta)
         = Some q"
proof (cases "market g")
  case None
  with assms show ?thesis by (simp add: precision_block_def)
next
  case (Some m)
  with assms show ?thesis
    by (auto simp add: precision_block_def check_min_cost_def Let_def
        split: option.splits if_splits)
qed

lemma route_order_spot_sell:
  "trade_mode t = ''cash'' \<Longrightarrow> signal s = ''SELL'' \<Longrightarrow>
     od \<in> set (snd (route_order t g s q)) \<Longrightarrow> qty od = q"
  by (auto simp add: route_order_def split: option.splits if_splits)

text \<open>A reduce-only order is the close leg of line 1479 or 1496 and carries the position's size.\<close>

lemma margin_orders_reduce_only:
  "od \<in> set (margin_orders t g sd opp q) \<Longrightarrow> reduce_only od \<Longrightarrow>
     \<exists>p. get_current_position (symbol g) (fetch_positions g) = Some p \<and> qty od = pos_size p"
  by (auto simp add: margin_orders_def entry_order_def close_order_def
      split: option.splits if_splits)

lemma route_order_reduce_only:
  "od \<in> set (snd (route_order t g s q)) \<Longrightarrow> reduce_only od \<Longrightarrow>
     \<exists>p. get_current_position (symbol g) (fetch_positions g) = Some p \<and> qty od = pos_size p"
  by (auto simp add: route_order_def dest: margin_orders_reduce_only
      split: option.splits if_splits)

lemma reversal_close_leg:
  assumes "trade_mode t \<noteq> ''cash''"
    "get_current_position (symbol g) (fetch_positions g) = Some p"
    "signal s = ''SELL'' \<and> side p = ''long'' \<or> signal s = ''BUY'' \<and> side p = ''short''"
  shows "snd (route_order t g s q) \<noteq> [] \<and> reduce_only (hd (snd (route_order t g s q)))
     \<and> qty (hd (snd (route_order t g s q))) = pos_size p"
  using assms by (auto simp add: route_order_def margin_orders_def close_order_def)

text \<open>The orders of a spot SELL carry \<open>spot_sell_quantity\<close>.\<close>

lemma spot_sell_quantity_amount:
  "amount s2 = amount s \<Longrightarrow> spot_sell_quantity g s2 = spot_sell_quantity g s"
  by (cases "market g") (simp_all add: spot_sell_quantity_def)

lemma max_trade_limit_spot_sell:
  "trade_mode t = ''cash'' \<Longrightarrow> signal s = ''SELL'' \<Longrightarrow>
     max_trade_limit t g s price = Some (spot_balance_held g, True)"
  by (simp add: max_trade_limit_def Let_def)

lemma size_and_route_spot_sell:
  assumes "trade_mode t = ''cash''" "signal s = ''SELL''"
  shows "size_and_route t g s w =
     (case price_sizing g of
        None \<Rightarrow> finish (Raised TypeError) s [] w
      | Some price \<Rightarrow>
          (case precision_block g s price (spot_balance_held g)
                  (min (amount s) (spot_balance_held g)) of
             Inl out \<Rightarrow> finish out s [] w
           | Inr q \<Rightarrow>
               (if q \<le> 0 then finish Non_positive s [] w
                else (case route_order t g s q of (out, os) \<Rightarrow> finish out s os w))))"
  using assms
  by (cases "price_sizing g")
    (simp_all add: size_and_route_def max_trade_limit_spot_sell sized_amount_def)

lemma spot_sell_size_and_route:
  assumes "trade_mode t = ''cash''" "signal s = ''SELL''"
    "od \<in> set (orders (size_and_route t g s w))"
  shows "Some (qty od) = spot_sell_quantity g s"
proof (cases "price_sizing g")
  case None
  with assms(3) show ?thesis
    by (simp add: size_and_route_spot_sell[OF assms(1,2)] finish_def)
next
  case (Some price)
  let ?ta = "min (amount s) (spot_balance_held g)"
  show ?thesis
  proof (cases "precision_block g s price (spot_balance_held g) ?ta")
    case (Inl out)
    with Some assms(3) show ?thesis
      by (simp add: size_and_route_spot_sell[OF assms(1,2)] finish_def)
  next
    case (Inr q)
    obtain out os where ro: "route_order t g s q = (out, os)"
      by (cases "route_order t g s q") simp
    have "od \<in> set os"
      using Some Inr ro assms(3)
      by (cases "q \<le> 0")
        (simp_all add: size_and_route_spot_sell[OF assms(1,2)] finish_def)
    with ro have "od \<in> set (snd (route_order t g s q))" by simp
    then have "qty od = q" by (rule route_order_spot_sell[OF assms(1,2)])
    moreover have "spot_sell_quantity g s = Some q"
      using precision_block_sell[OF assms(2) Inr] by (simp add: spot_sell_quantity_def)
    ultimately show ?thesis by simp
  qed
qed

lemma spot_sell_execute_trade:
  assumes "trade_mode t = ''cash''" "signal s = ''SELL''"
    "od \<in> set (orders (execute_trade t g s))"
  shows "Some (qty od) = spot_sell_quantity g s"
proof -
  from execute_trade_orders[of t g s] assms(3)
  obtain s2 w where o: "orders (execute_trade t g s) = orders (size_and_route t g s2 w)"
    and a: "amount s2 = amount s" and b: "signal s2 = signal s \<or> signal s2 = ''HOLD''"
    by auto
  have "signal s2 = ''SELL''"
  proof (rule ccontr)
    assume "signal s2 \<noteq> ''SELL''"
    with b assms(2) have "signal s2 = ''HOLD''" by simp
    then have "orders (size_and_route t g s2 w) = []"
      by (simp add: orders_size_and_route_other)
    with o assms(3) show False by simp
  qed
  from spot_sell_size_and_route[OF assms(1) this] o assms(3)
  have "Some (qty od) = spot_sell_quantity g s2" by simp
  with spot_sell_quantity_amount[OF a, of g] show ?thesis by simp
qed

text \<open>
  A spot SELL reads neither the configured amount, nor the allocation, nor the initial
  balance, nor the free balance, nor the holding that counts as used capital.
\<close>

lemma check_min_cost_gateway:
  "check_min_cost (g\<lparr>account_balance := fb, spot_balance_used := u\<rparr>) s m price cap ta
     = check_min_cost g s m price cap ta"
  by (simp add: check_min_cost_def cong: option.case_cong if_cong)

lemma precision_block_gateway:
  "precision_block (g\<lparr>account_balance := fb, spot_balance_used := u\<rparr>) s price cap ta
     = precision_block g s price cap ta"
  by (simp add: precision_block_def check_min_cost_gateway Let_def
      cong: option.case_cong if_cong)

lemma margin_orders_quota:
  "margin_orders (t\<lparr>self_amount := a, allocation := al, initial_balance := ib\<rparr>)
      (g\<lparr>account_balance := fb, spot_balance_used := u\<rparr>) sd opp q
   = margin_orders t g sd opp q"
  by (simp add: margin_orders_def entry_order_def cong: option.case_cong if_cong)

lemma route_order_quota:
  "route_order (t\<lparr>self_amount := a, allocation := al, initial_balance := ib\<rparr>)
      (g\<lparr>account_balance := fb, spot_balance_used := u\<rparr>) s q
   = route_order t g s q"
  by (simp add: route_order_def margin_orders_quota cong: option.case_cong if_cong)

lemma size_and_route_spot_sell_quota:
  assumes "trade_mode t = ''cash''" "signal s = ''SELL''"
  shows "size_and_route (t\<lparr>self_amount := a, allocation := al, initial_balance := ib\<rparr>)
           (g\<lparr>account_balance := fb, spot_balance_used := u\<rparr>) s w
         = size_and_route t g s w"
proof -
  have c: "trade_mode (t\<lparr>self_amount := a, allocation := al, initial_balance := ib\<rparr>) = ''cash''"
    using assms(1) by simp
  show ?thesis
    unfolding size_and_route_spot_sell[OF c assms(2)] size_and_route_spot_sell[OF assms(1,2)]
    by (simp add: precision_block_gateway route_order_quota
        cong: option.case_cong sum.case_cong if_cong)
qed

lemma execute_trade_spot_sell_quota:
  assumes "trade_mode t = ''cash''" "signal s = ''SELL''"
  shows "orders (execute_trade (t\<lparr>self_amount := a, allocation := al, initial_balance := ib\<rparr>)
           (g\<lparr>account_balance := fb, spot_balance_used := u\<rparr>) s)
         = orders (execute_trade t g s)"
proof -
  let ?t = "t\<lparr>self_amount := a, allocation := al, initial_balance := ib\<rparr>"
  let ?g = "g\<lparr>account_balance := fb, spot_balance_used := u\<rparr>"
  have cf: "confidence_filter ?t s = confidence_filter t s"
    by (simp add: confidence_filter_def min_conf_val_def conf_filter_suffix_def)
  have pf: "profit_filter ?t cp price x = profit_filter t cp price x" for cp price x
    by (cases cp)
      (simp_all add: profit_filter_def min_profit_threshold_def profit_block_reason_def Let_def)
  have sl: "slippage_cancelled ?t ?g = slippage_cancelled t g"
    by (simp add: slippage_cancelled_def cong: option.case_cong)
  have sr: "orders (size_and_route ?t ?g x w) = orders (size_and_route t g x w)"
    if "signal x = ''SELL'' \<or> signal x = ''HOLD''" for x w
  proof (cases "signal x = ''SELL''")
    case True
    then show ?thesis by (simp add: size_and_route_spot_sell_quota[OF assms(1)])
  next
    case False
    with that have "signal x = ''HOLD''" by simp
    then show ?thesis by (simp add: orders_size_and_route_other)
  qed
  show ?thesis
  proof (cases "price_entry g")
    case None
    then show ?thesis by (simp add: execute_trade_def finish_def)
  next
    case (Some price)
    let ?s1 = "confidence_filter t s"
    let ?cp = "get_current_position (symbol g) (fetch_positions g)"
    obtain s2 w where p: "profit_filter t ?cp price ?s1 = (s2, w)"
      by (cases "profit_filter t ?cp price ?s1") simp
    have h: "signal s2 = ''SELL'' \<or> signal s2 = ''HOLD''"
      using profit_filter_fields(2)[of t ?cp price ?s1]
        p confidence_filter_fields(2)[of t s] assms(2) by auto
    have l: "execute_trade ?t ?g s =
       (if signal ?s1 = ''HOLD'' then finish Hold ?s1 [] False
        else if test_mode t then finish Test_mode s2 [] w
        else if slippage_cancelled t g then finish Slippage_cancel s2 [] w
        else size_and_route ?t ?g s2 w)"
      using Some p by (simp add: execute_trade_def cf pf sl Let_def)
    have r: "execute_trade t g s =
       (if signal ?s1 = ''HOLD'' then finish Hold ?s1 [] False
        else if test_mode t then finish Test_mode s2 [] w
        else if slippage_cancelled t g then finish Slippage_cancel s2 [] w
        else size_and_route t g s2 w)"
      using Some p by (simp add: execute_trade_def Let_def)
    show ?thesis unfolding l r using sr[OF h, of w] by simp
  qed
qed

text \<open>Every order of a call comes from \<open>route_order\<close>.\<close>

lemma orders_size_and_route_cases:
  "orders (size_and_route t g s w) = []
   \<or> (\<exists>q. orders (size_and_route t g s w) = snd (route_order t g s q))"
proof -
  have "orders (case route_order t g s q of (out, os) \<Rightarrow> finish out s os w)
        = snd (route_order t g s q)" for q
    by (cases "route_order t g s q") (simp add: finish_def)
  then show ?thesis
    by (simp add: size_and_route_def finish_def
        split: option.splits sum.splits prod.splits) blast
qed

lemma execute_trade_reduce_only:
  assumes "od \<in> set (orders (execute_trade t g s))" "reduce_only od"
  shows "\<exists>p. get_current_position (symbol g) (fetch_positions g) = Some p \<and> qty od = pos_size p"
proof -
  from execute_trade_orders[of t g s] assms(1)
  obtain s2 w where o: "orders (execute_trade t g s) = orders (size_and_route t g s2 w)"
    by auto
  with orders_size_and_route_cases[of t g s2 w] assms(1)
  obtain q where "orders (execute_trade t g s) = snd (route_order t g s2 q)" by auto
  with assms show ?thesis using route_order_reduce_only[of od t g s2 q] by simp
qed

text \<open>
  A spot SELL of 1.239 units with 2 units held, on a market with two decimals, sends
  1.23: the quantity is cut by the precision rule of line 1395.
\<close>

lemma spot_sell_is_truncated:
  "trade_mode spot_trader = ''cash'' \<and> signal sell_signal = ''SELL''
   \<and> map qty (orders (execute_trade spot_trader spot_holder sell_signal)) = [123 / 100]
   \<and> min (amount sell_signal) (spot_balance_held spot_holder) = 1239 / 1000
   \<and> (123 / 100 :: real) \<noteq> 1239 / 1000"
  by code_simp

text \<open>
  C2. The claim is that a closing trade is never reduced by the configured capital, and
  that the close leg of a reversal always uses the entire position. A SELL against a long
  position of 5 contracts sends the reduce-only close of 5 and then the new short when no
  capital is configured. With an initial balance of 100 and an allocation of 0.1 the quota
  is 10 USDT, the limit of the new leg is \<open>10 * 3 * 0.99 / 11000 = 0.0027\<close>, below the
  minimum quantity 0.01, and the call returns at line 1391: the close leg of line 1496
  is not sent and the position stays open.
\<close>

theorem quota_blocks_reversal_close:
  "get_current_position (symbol (long_at 11000)) (fetch_positions (long_at 11000))
     = Some \<lparr>side = ''long'', pos_size = 5, entry_price = 10000, unrealized_pnl = 0\<rparr>
   \<and> orders (execute_trade margin_trader (long_at 11000) sell_signal)
       = [\<lparr>order_side = ''sell'', qty = 5, reduce_only = True, td_mode = None\<rparr>,
          \<lparr>order_side = ''sell'', qty = 1, reduce_only = False, td_mode = Some ''cross''\<rparr>]
   \<and> effective_balance capped_margin_trader (long_at 11000) 11000 = 10
   \<and> max_trade_limit capped_margin_trader (long_at 11000) sell_signal 11000
       = Some (27 / 10000, False)
   \<and> outcome (execute_trade capped_margin_trader (long_at 11000) sell_signal) = Below_min_amount
   \<and> orders (execute_trade capped_margin_trader (long_at 11000) sell_signal) = []"
  by code_simp

section \<open>Properties of the risk manager\<close>

text \<open>
  C6. With a configured initial balance of 1000: when the real total equity is 1200 (a
  deviation of 20 percent), the baseline becomes 1200, whatever it was; when it is 1050
  (5 percent), the baseline becomes 1000 if none was restored (it is \<open>None\<close>, or \<open>0\<close>,
  which Python takes as none), and stays as restored otherwise. The state file then holds
  the baseline, when the write succeeds.
\<close>

theorem baseline_calibration:
  assumes "rm_initial_balance rm = Some 1000"
  shows "(real_total_equity env e = Some 1200 \<longrightarrow>
            (\<exists>fs1. initialize_baseline rm env e fs = Some (rm\<lparr>smart_baseline := Some 1200\<rparr>, fs1)
               \<and> (state_writable env \<longrightarrow> state_file fs1 = Some (Some 1200))))
     \<and> (real_total_equity env e = Some 1050
          \<and> (smart_baseline rm = None \<or> smart_baseline rm = Some 0) \<longrightarrow>
            (\<exists>fs1. initialize_baseline rm env e fs = Some (rm\<lparr>smart_baseline := Some 1000\<rparr>, fs1)
               \<and> (state_writable env \<longrightarrow> state_file fs1 = Some (Some 1000))))
     \<and> (real_total_equity env e = Some 1050 \<and> smart_baseline rm = Some b \<and> b \<noteq> 0 \<longrightarrow>
            (\<exists>fs1. initialize_baseline rm env e fs = Some (rm, fs1)
               \<and> (state_writable env \<longrightarrow> state_file fs1 = Some (Some b))))"
proof -
  have c1: "calibrate rm 1200 = rm\<lparr>smart_baseline := Some 1200\<rparr>"
    using assms by (simp add: calibrate_def set_and_def Let_def)
  have c2: "calibrate rm 1050 = rm\<lparr>smart_baseline := Some 1000\<rparr>"
    if "smart_baseline rm = None \<or> smart_baseline rm = Some 0"
    using assms that by (auto simp add: calibrate_def set_and_def truthy_def Let_def)
  have c3: "calibrate rm 1050 = rm" if "smart_baseline rm = Some b" "b \<noteq> 0"
    using assms that by (simp add: calibrate_def set_and_def truthy_def Let_def)
  show ?thesis
    using c1 c2 c3
    by (auto simp add: initialize_baseline_def save_state_def Let_def)
qed

text \<open>
  A manager without baseline and one restored at 990, with an equity of 1000 plus 100
  units at price 2, and with an equity of 1050 and no holding.
\<close>

theorem baseline_calibration_witness:
  "rm_initial_balance guard = Some 1000
   \<and> real_total_equity (account 1000 100) 1000 = Some 1200
   \<and> real_total_equity (account 1050 0) 1050 = Some 1050
   \<and> smart_baseline guard = None
   \<and> smart_baseline (guard\<lparr>smart_baseline := Some 990\<rparr>) = Some 990 \<and> (990 :: real) \<noteq> 0
   \<and> state_writable (account 1000 100) \<and> state_writable (account 1050 0)
   \<and> initialize_baseline (guard\<lparr>smart_baseline := Some 990\<rparr>) (account 1000 100) 1000 no_files
       = Some (guard\<lparr>smart_baseline := Some 1200\<rparr>, no_files\<lparr>state_file := Some (Some 1200)\<rparr>)
   \<and> initialize_baseline guard (account 1050 0) 1050 no_files
       = Some (guard\<lparr>smart_baseline := Some 1000\<rparr>, no_files\<lparr>state_file := Some (Some 1000)\<rparr>)
   \<and> initialize_baseline (guard\<lparr>smart_baseline := Some 990\<rparr>) (account 1050 0) 1050 no_files
       = Some (guard\<lparr>smart_baseline := Some 990\<rparr>, no_files\<lparr>state_file := Some (Some 990)\<rparr>)"
proof -
  have a: "rm_initial_balance guard = Some 1000" by (simp add: guard_def)
  have a': "rm_initial_balance (guard\<lparr>smart_baseline := Some 990\<rparr>) = Some 1000"
    by (simp add: guard_def)
  have r1: "real_total_equity (account 1000 100) 1000 = Some 1200" by code_simp
  have r2: "real_total_equity (account 1050 0) 1050 = Some 1050" by code_simp
  have n: "smart_baseline guard = None" by (simp add: guard_def)
  have p: "smart_baseline (guard\<lparr>smart_baseline := Some 990\<rparr>) = Some 990" by simp
  have w: "state_writable (account 1000 100)" "state_writable (account 1050 0)"
    by (simp_all add: account_def)
  have f: "(fs1 = no_files\<lparr>state_file := v\<rparr>) = (state_file fs1 = v \<and> ledger fs1 = [])" for fs1 v
    by (cases fs1) (auto simp add: no_files_def)
  have l: "ledger (snd (the (initialize_baseline rm env e no_files))) = []"
    if "real_total_equity env e \<noteq> None" for rm env e
    using that by (auto simp add: initialize_baseline_def save_state_def no_files_def Let_def)
  from baseline_calibration[OF a', where env = "account 1000 100" and e = 1000 and fs = no_files]
    r1 w l[of "account 1000 100" 1000 "guard\<lparr>smart_baseline := Some 990\<rparr>"]
  have i1: "initialize_baseline (guard\<lparr>smart_baseline := Some 990\<rparr>) (account 1000 100) 1000 no_files
       = Some (guard\<lparr>smart_baseline := Some 1200\<rparr>, no_files\<lparr>state_file := Some (Some 1200)\<rparr>)"
    by (auto simp add: f)
  from baseline_calibration[OF a, where env = "account 1050 0" and e = 1050 and fs = no_files]
    r2 w n l[of "account 1050 0" 1050 guard]
  have i2: "initialize_baseline guard (account 1050 0) 1050 no_files
       = Some (guard\<lparr>smart_baseline := Some 1000\<rparr>, no_files\<lparr>state_file := Some (Some 1000)\<rparr>)"
    by (auto simp add: f)
  from baseline_calibration[OF a', where env = "account 1050 0" and e = 1050 and fs = no_files
      and b = 990]
    r2 w p l[of "account 1050 0" 1050 "guard\<lparr>smart_baseline := Some 990\<rparr>"]
  have i3: "initialize_baseline (guard\<lparr>smart_baseline := Some 990\<rparr>) (account 1050 0) 1050 no_files
       = Some (guard\<lparr>smart_baseline := Some 990\<rparr>, no_files\<lparr>state_file := Some (Some 990)\<rparr>)"
    by (auto simp add: f)
  from a r1 r2 n p w i1 i2 i3 show ?thesis by simp
qed

text \<open>The calibration leaves the thresholds as configured.\<close>

lemma calibrate_thresholds:
  "max_profit (calibrate rm rte) = max_profit rm"
  "max_profit_pct (calibrate rm rte) = max_profit_pct rm"
  "max_loss (calibrate rm rte) = max_loss rm"
  "max_loss_pct (calibrate rm rte) = max_loss_pct rm"
  by (simp_all add: calibrate_def Let_def split: option.splits)

lemma initialize_baseline_thresholds:
  assumes "initialize_baseline rm env e fs = Some (rm1, fs1)"
  shows "max_profit rm1 = max_profit rm \<and> max_profit_pct rm1 = max_profit_pct rm
     \<and> max_loss rm1 = max_loss rm \<and> max_loss_pct rm1 = max_loss_pct rm"
  using assms
  by (auto simp add: initialize_baseline_def Let_def calibrate_thresholds split: option.splits)

lemma check_accounting_thresholds:
  assumes "check_accounting rm env fs = Inr (rm1, fs1, pnl, pct)"
  shows "max_profit rm1 = max_profit rm \<and> max_profit_pct rm1 = max_profit_pct rm
     \<and> max_loss rm1 = max_loss rm \<and> max_loss_pct rm1 = max_loss_pct rm"
proof -
  from assms obtain fs0 where
    "(if smart_baseline rm = None
      then initialize_baseline rm env (the (read_equity env)) fs else Some (rm, fs))
     = Some (rm1, fs0)"
    by (auto simp add: check_accounting_def Let_def split: option.splits if_splits)
  then show ?thesis
    using initialize_baseline_thresholds[of rm env "the (read_equity env)" fs rm1 fs0]
    by (auto split: if_splits)
qed

lemma events_check:
  assumes "check_accounting rm env fs = Inr (rm1, fs1, pnl, pct)"
  shows "events (check rm env fs) = check_thresholds rm1 pnl pct"
  using assms by (simp add: check_def)

lemma check_thresholds_chain:
  "check_thresholds rm pnl pct =
      (if set_and (max_profit rm) (\<lambda>m. pnl \<ge> m)
       then [Close_all_traders, Send_notification Profit_amount, Sys_exit]
       else if set_and (max_profit_pct rm) (\<lambda>r. pct \<ge> r * 100)
       then [Close_all_traders, Send_notification Profit_rate, Sys_exit]
       else if set_and (max_loss rm) (\<lambda>m. pnl \<le> - m)
       then [Close_all_traders, Send_notification Loss_amount, Sys_exit]
       else if set_and (max_loss_pct rm) (\<lambda>r. pct \<le> - (r * 100))
       then [Close_all_traders, Send_notification Loss_rate, Sys_exit]
       else [])"
  by (simp add: check_thresholds_def take_profit_def stop_loss_def halt_def)

text \<open>
  C7. In a cycle that reaches the threshold tests, the profit amount is tested first,
  then the profit rate, then the loss amount, then the loss rate; the first test that
  holds calls the halt (close all traders, notify, exit) and nothing after it runs, so
  the halt happens at most once, and exactly once when some threshold is breached. A
  threshold that is not set (\<open>None\<close>, or \<open>0\<close>) never triggers.
\<close>

theorem threshold_evaluation_order:
  assumes "check_accounting rm env fs = Inr (rm1, fs1, pnl, pct)"
  shows "events (check rm env fs) =
      (if set_and (max_profit rm) (\<lambda>m. pnl \<ge> m)
       then [Close_all_traders, Send_notification Profit_amount, Sys_exit]
       else if set_and (max_profit_pct rm) (\<lambda>r. pct \<ge> r * 100)
       then [Close_all_traders, Send_notification Profit_rate, Sys_exit]
       else if set_and (max_loss rm) (\<lambda>m. pnl \<le> - m)
       then [Close_all_traders, Send_notification Loss_amount, Sys_exit]
       else if set_and (max_loss_pct rm) (\<lambda>r. pct \<le> - (r * 100))
       then [Close_all_traders, Send_notification Loss_rate, Sys_exit]
       else [])
     \<and> (set_and (max_profit rm) (\<lambda>m. pnl \<ge> m) \<or> set_and (max_profit_pct rm) (\<lambda>r. pct \<ge> r * 100)
          \<or> set_and (max_loss rm) (\<lambda>m. pnl \<le> - m)
          \<or> set_and (max_loss_pct rm) (\<lambda>r. pct \<le> - (r * 100)) \<longrightarrow>
         (\<exists>trg. events (check rm env fs) = [Close_all_traders, Send_notification trg, Sys_exit]))
     \<and> count_list (events (check rm env fs)) Close_all_traders \<le> 1
     \<and> count_list (events (check rm env fs)) Sys_exit \<le> 1
     \<and> (max_profit rm = None \<or> max_profit rm = Some 0 \<longrightarrow>
          Send_notification Profit_amount \<notin> set (events (check rm env fs)))
     \<and> (max_profit_pct rm = None \<or> max_profit_pct rm = Some 0 \<longrightarrow>
          Send_notification Profit_rate \<notin> set (events (check rm env fs)))
     \<and> (max_loss rm = None \<or> max_loss rm = Some 0 \<longrightarrow>
          Send_notification Loss_amount \<notin> set (events (check rm env fs)))
     \<and> (max_loss_pct rm = None \<or> max_loss_pct rm = Some 0 \<longrightarrow>
          Send_notification Loss_rate \<notin> set (events (check rm env fs)))
     \<and> (max_profit rm = None \<and> max_profit_pct rm = None \<and> max_loss rm = None
          \<and> max_loss_pct rm = None \<longrightarrow> events (check rm env fs) = [])"
proof -
  note th = check_accounting_thresholds[OF assms]
  have ev: "events (check rm env fs) =
      (if set_and (max_profit rm) (\<lambda>m. pnl \<ge> m)
       then [Close_all_traders, Send_notification Profit_amount, Sys_exit]
       else if set_and (max_profit_pct rm) (\<lambda>r. pct \<ge> r * 100)
       then [Close_all_traders, Send_notification Profit_rate, Sys_exit]
       else if set_and (max_loss rm) (\<lambda>m. pnl \<le> - m)
       then [Close_all_traders, Send_notification Loss_amount, Sys_exit]
       else if set_and (max_loss_pct rm) (\<lambda>r. pct \<le> - (r * 100))
       then [Close_all_traders, Send_notification Loss_rate, Sys_exit]
       else [])"
    unfolding events_check[OF assms] check_thresholds_chain using th by simp
  have n: "\<not> set_and v P" if "v = None \<or> v = Some 0" for v :: "real option" and P
    using that by (auto simp add: set_and_def)
  show ?thesis
    unfolding ev using n[of "max_profit rm"] n[of "max_profit_pct rm"] n[of "max_loss rm"]
      n[of "max_loss_pct rm"]
    by (auto simp add: set_and_simps)
qed

text \<open>
  A manager with every threshold set halts on the profit amount at a profit of 200 and
  on the loss amount at a loss of 200; a manager with a profit amount and a loss rate
  halts on the loss rate; a manager without thresholds does not halt.
\<close>

theorem threshold_evaluation_order_witness:
  "check_accounting full_guard (account 1000 100) no_files
     = Inr (full_guard, no_files\<lparr>ledger := [(1200, 200, 20)]\<rparr>, 200, 20)
   \<and> events (check full_guard (account 1000 100) no_files)
       = [Close_all_traders, Send_notification Profit_amount, Sys_exit]
   \<and> check_accounting full_guard (account 800 0) no_files
       = Inr (full_guard, no_files\<lparr>ledger := [(800, - 200, - 20)]\<rparr>, - 200, - 20)
   \<and> events (check full_guard (account 800 0) no_files)
       = [Close_all_traders, Send_notification Loss_amount, Sys_exit]
   \<and> check_accounting (guard\<lparr>smart_baseline := Some 1000\<rparr>) (account 800 0) no_files
       = Inr (guard\<lparr>smart_baseline := Some 1000\<rparr>,
              no_files\<lparr>ledger := [(800, - 200, - 20)]\<rparr>, - 200, - 20)
   \<and> events (check (guard\<lparr>smart_baseline := Some 1000\<rparr>) (account 800 0) no_files)
       = [Close_all_traders, Send_notification Loss_rate, Sys_exit]
   \<and> check_accounting idle_guard (account 1000 100) no_files
       = Inr (idle_guard, no_files\<lparr>ledger := [(1200, 200, 20)]\<rparr>, 200, 20)
   \<and> events (check idle_guard (account 1000 100) no_files) = []"
proof -
  have a1: "check_accounting full_guard (account 1000 100) no_files
     = Inr (full_guard, no_files\<lparr>ledger := [(1200, 200, 20)]\<rparr>, 200, 20)" by code_simp
  have a2: "check_accounting full_guard (account 800 0) no_files
     = Inr (full_guard, no_files\<lparr>ledger := [(800, - 200, - 20)]\<rparr>, - 200, - 20)" by code_simp
  have a3: "check_accounting (guard\<lparr>smart_baseline := Some 1000\<rparr>) (account 800 0) no_files
       = Inr (guard\<lparr>smart_baseline := Some 1000\<rparr>,
              no_files\<lparr>ledger := [(800, - 200, - 20)]\<rparr>, - 200, - 20)" by code_simp
  have a4: "check_accounting idle_guard (account 1000 100) no_files
       = Inr (idle_guard, no_files\<lparr>ledger := [(1200, 200, 20)]\<rparr>, 200, 20)" by code_simp
  from threshold_evaluation_order[OF a1]
  have e1: "events (check full_guard (account 1000 100) no_files)
       = [Close_all_traders, Send_notification Profit_amount, Sys_exit]"
    by (simp add: full_guard_def set_and_simps)
  from threshold_evaluation_order[OF a2]
  have e2: "events (check full_guard (account 800 0) no_files)
       = [Close_all_traders, Send_notification Loss_amount, Sys_exit]"
    by (simp add: full_guard_def set_and_simps)
  from threshold_evaluation_order[OF a3]
  have e3: "events (check (guard\<lparr>smart_baseline := Some 1000\<rparr>) (account 800 0) no_files)
       = [Close_all_traders, Send_notification Loss_rate, Sys_exit]"
    by (simp add: guard_def set_and_simps)
  from threshold_evaluation_order[OF a4]
  have e4: "events (check idle_guard (account 1000 100) no_files) = []"
    by (simp add: idle_guard_def set_and_simps)
  from a1 a2 a3 a4 e1 e2 e3 e4 show ?thesis by simp
qed

text \<open>
  C8. When the USDT equity cannot be read, or is zero or negative, \<open>check\<close> leaves the
  manager and the files as they were and nothing happens in the cycle: no baseline is
  set, no row is written, no threshold is tested.
\<close>

theorem no_equity_short_circuit:
  assumes "read_equity env = None \<or> (\<exists>e. read_equity env = Some e \<and> e \<le> 0)"
  shows "check rm env fs = \<lparr>manager = rm, disk = fs, events = []\<rparr>"
  using assms by (auto simp add: check_def check_accounting_def)

text \<open>
  A balance that cannot be fetched, a balance without USDT entry, an equity of 0 and an
  equity of -5.
\<close>

theorem no_equity_short_circuit_witness:
  "read_equity unreachable_account = None
   \<and> read_equity empty_account = Some 0
   \<and> read_equity (account 0 100) = Some 0
   \<and> read_equity (account (- 5) 100) = Some (- 5)
   \<and> smart_baseline guard = None
   \<and> check guard unreachable_account no_files
       = \<lparr>manager = guard, disk = no_files, events = []\<rparr>
   \<and> check guard empty_account no_files = \<lparr>manager = guard, disk = no_files, events = []\<rparr>
   \<and> check guard (account 0 100) no_files = \<lparr>manager = guard, disk = no_files, events = []\<rparr>
   \<and> check full_guard (account (- 5) 100) no_files
       = \<lparr>manager = full_guard, disk = no_files, events = []\<rparr>"
proof -
  have a: "read_equity unreachable_account = None" by code_simp
  have b: "read_equity empty_account = Some 0" by code_simp
  have c: "read_equity (account 0 100) = Some 0" by code_simp
  have d: "read_equity (account (- 5) 100) = Some (- 5)" by code_simp
  have n: "smart_baseline guard = None" by (simp add: guard_def)
  from no_equity_short_circuit[of unreachable_account guard no_files]
    no_equity_short_circuit[of empty_account guard no_files]
    no_equity_short_circuit[of "account 0 100" guard no_files]
    no_equity_short_circuit[of "account (- 5) 100" full_guard no_files]
    a b c d n
  show ?thesis by simp
qed

end
